theory Spec2Isabelle
  imports Complex_Main
begin

section \<open>The float64 values of the program\<close>

text \<open>
  Every price of \<^verbatim>\<open>main.go\<close> is a Go \<^verbatim>\<open>float64\<close>: an IEEE 754 binary64 number.
  A finite one is written \<open>Finite s m e\<close> and stands for \<open>(-1)^s * m * 2^e\<close>; the
  values that arithmetic produces have \<open>m < 2^53\<close> and \<open>-1074 \<le> e \<le> 971\<close>, and
  \<open>e = -1074\<close> when \<open>m < 2^52\<close> (zero and the subnormal numbers). The sign of a zero
  is kept, as Go prints it.
\<close>

datatype float64 = Finite bool nat int | Infinite bool | NaN

text \<open>The number of binary digits of a natural number.\<close>

fun bitlen :: "nat \<Rightarrow> nat" where
  "bitlen n = (if n = 0 then 0 else Suc (bitlen (n div 2)))"

declare bitlen.simps [simp del]

text \<open>
  \<open>round_ratio s n d\<close> is the float64 nearest to the exact quotient \<open>n / d\<close>
  (\<open>d > 0\<close>), with sign \<open>s\<close>: rounding to nearest, ties to the even significand,
  gradual underflow below \<open>2^-1022\<close>, and overflow to an infinity. Every conversion of
  a constant and every arithmetic operation of the program rounds in this way.
\<close>

definition round_ratio :: "bool \<Rightarrow> nat \<Rightarrow> nat \<Rightarrow> float64" where
  "round_ratio s n d =
     (if n = 0 then Finite s 0 (- 1074)
      else
        let l = int (bitlen n) - int (bitlen d);
            fl = (if d * 2 ^ nat l \<le> n * 2 ^ nat (- l) then l else l - 1);
            e = max (fl - 52) (- 1074);
            num = n * 2 ^ nat (- e);
            den = d * 2 ^ nat e;
            q = num div den;
            r = num mod den;
            m = (if den < 2 * r \<or> (2 * r = den \<and> odd q) then q + 1 else q);
            m' = (if m = 2 ^ 53 then 2 ^ 52 else m);
            e' = (if m = 2 ^ 53 then e + 1 else e)
        in if 971 < e' then Infinite s else Finite s m' e')"

text \<open>The exact value of a finite float64, as a rational number.\<close>

definition float_val :: "bool \<Rightarrow> nat \<Rightarrow> int \<Rightarrow> rat" where
  "float_val s m e =
     (if s then - 1 else 1) * of_nat m * (if 0 \<le> e then 2 ^ nat e else 1 / 2 ^ nat (- e))"

text \<open>
  Go's \<^verbatim>\<open><=\<close> and \<^verbatim>\<open>>\<close> on float64: a comparison with a NaN is false, and the two
  zeros are equal.
\<close>

fun float_le :: "float64 \<Rightarrow> float64 \<Rightarrow> bool" where
  "float_le (Finite s m e) (Finite t n f) = (float_val s m e \<le> float_val t n f)"
| "float_le (Finite s m e) (Infinite t) = (\<not> t)"
| "float_le (Infinite s) (Finite t n f) = s"
| "float_le (Infinite s) (Infinite t) = (s \<or> \<not> t)"
| "float_le NaN y = False"
| "float_le x NaN = False"

fun float_gt :: "float64 \<Rightarrow> float64 \<Rightarrow> bool" where
  "float_gt (Finite s m e) (Finite t n f) = (float_val t n f < float_val s m e)"
| "float_gt (Finite s m e) (Infinite t) = t"
| "float_gt (Infinite s) (Finite t n f) = (\<not> s)"
| "float_gt (Infinite s) (Infinite t) = (\<not> s \<and> t)"
| "float_gt NaN y = False"
| "float_gt x NaN = False"

text \<open>Go's \<^verbatim>\<open>*\<close> and \<^verbatim>\<open>/\<close> on float64: the exact result, rounded once.\<close>

fun float_mul :: "float64 \<Rightarrow> float64 \<Rightarrow> float64" where
  "float_mul (Finite s m e) (Finite t n f) =
     round_ratio (s \<noteq> t) (m * n * 2 ^ nat (e + f)) (2 ^ nat (- (e + f)))"
| "float_mul (Finite s m e) (Infinite t) = (if m = 0 then NaN else Infinite (s \<noteq> t))"
| "float_mul (Infinite s) (Finite t n f) = (if n = 0 then NaN else Infinite (s \<noteq> t))"
| "float_mul (Infinite s) (Infinite t) = Infinite (s \<noteq> t)"
| "float_mul NaN y = NaN"
| "float_mul x NaN = NaN"

fun float_div :: "float64 \<Rightarrow> float64 \<Rightarrow> float64" where
  "float_div (Finite s m e) (Finite t n f) =
     (if n = 0 then (if m = 0 then NaN else Infinite (s \<noteq> t))
      else round_ratio (s \<noteq> t) (m * 2 ^ nat (e - f)) (n * 2 ^ nat (f - e)))"
| "float_div (Finite s m e) (Infinite t) = Finite (s \<noteq> t) 0 (- 1074)"
| "float_div (Infinite s) (Finite t n f) = Infinite (s \<noteq> t)"
| "float_div (Infinite s) (Infinite t) = NaN"
| "float_div NaN y = NaN"
| "float_div x NaN = NaN"

section \<open>Formatting: \<^verbatim>\<open>fmt.Sprintf("%.2f", x)\<close>\<close>

definition digit_char :: "nat \<Rightarrow> char" where
  "digit_char d = ''0123456789'' ! (d mod 10)"

fun decimal :: "nat \<Rightarrow> string" where
  "decimal n = (if n < 10 then [digit_char n] else decimal (n div 10) @ [digit_char n])"

declare decimal.simps [simp del]

text \<open>
  The verb \<^verbatim>\<open>%.2f\<close> prints the exact value of the float64 rounded to two decimals
  (ties to even), with a minus sign when the sign bit is set.
\<close>

fun format_2f :: "float64 \<Rightarrow> string" where
  "format_2f NaN = ''NaN''"
| "format_2f (Infinite s) = (if s then ''-Inf'' else ''+Inf'')"
| "format_2f (Finite s m e) =
     (let num = m * 100 * 2 ^ nat e;
          den = 2 ^ nat (- e);
          q = num div den;
          r = num mod den;
          c = (if den < 2 * r \<or> (2 * r = den \<and> odd q) then q + 1 else q)
      in (if s then ''-'' else []) @ decimal (c div 100) @ ''.'' @
         [digit_char (c div 10), digit_char c])"

section \<open>Bytes\<close>

text \<open>
  A Go \<^verbatim>\<open>string\<close> or \<^verbatim>\<open>[]byte\<close> is a list of 8-bit characters.
\<close>

definition byte :: "char \<Rightarrow> nat" where
  "byte c = of_char c"

definition dquote :: char where
  "dquote = CHR 0x22"

definition backslash :: char where
  "backslash = CHR 0x5C"

definition newline :: char where
  "newline = CHR 0x0A"

definition isSpace :: "char \<Rightarrow> bool" where
  "isSpace c = (c = CHR '' '' \<or> c = CHR 0x09 \<or> c = CHR 0x0D \<or> c = CHR 0x0A)"

definition isDigit :: "char \<Rightarrow> bool" where
  "isDigit c = (48 \<le> byte c \<and> byte c \<le> 57)"

definition isHex :: "char \<Rightarrow> bool" where
  "isHex c = (isDigit c \<or> (97 \<le> byte c \<and> byte c \<le> 102) \<or> (65 \<le> byte c \<and> byte c \<le> 70))"

section \<open>The package \<^verbatim>\<open>strconv\<close>: ParseFloat on a JSON number\<close>

text \<open>
  \<^verbatim>\<open>encoding/json\<close> hands \<^verbatim>\<open>strconv.ParseFloat(s, 64)\<close> a literal of the JSON grammar:
  an optional minus sign, decimal digits, an optional fraction and an optional decimal
  exponent. The result is the float64 nearest to the decimal number; a number that
  rounds to an infinity is the error \<^verbatim>\<open>ErrRange\<close> (written \<open>None\<close>).
\<close>

definition digits_val :: "string \<Rightarrow> nat" where
  "digits_val ds = foldl (\<lambda>a c. 10 * a + (byte c - 48)) 0 ds"

definition isExpMark :: "char \<Rightarrow> bool" where
  "isExpMark c = (c = CHR ''e'' \<or> c = CHR ''E'')"

definition ParseFloat :: "string \<Rightarrow> float64 option" where
  "ParseFloat lit =
     (let neg = (take 1 lit = ''-'');
          body = (if neg then drop 1 lit else lit);
          mant = takeWhile (\<lambda>c. \<not> isExpMark c) body;
          expo = drop 1 (dropWhile (\<lambda>c. \<not> isExpMark c) body);
          ipart = takeWhile (\<lambda>c. c \<noteq> CHR ''.'') mant;
          fpart = drop 1 (dropWhile (\<lambda>c. c \<noteq> CHR ''.'') mant);
          eneg = (take 1 expo = ''-'');
          edigits = (if take 1 expo = ''-'' \<or> take 1 expo = ''+'' then drop 1 expo else expo);
          ex = (if eneg then - int (digits_val edigits) else int (digits_val edigits));
          k = ex - int (length fpart);
          n = digits_val (ipart @ fpart)
      in case round_ratio neg (n * 10 ^ nat k) (10 ^ nat (- k)) of
           Infinite s \<Rightarrow> None
         | x \<Rightarrow> Some x)"

section \<open>The package \<^verbatim>\<open>encoding/json\<close>\<close>

subsection \<open>JSON values\<close>

text \<open>
  The members of an object are kept in the order of the text, duplicates included; a
  number keeps its literal; a string is kept unquoted.
\<close>

datatype json =
    JNull
  | JBool bool
  | JNumber string
  | JString string
  | JArray "json list"
  | JObject "(string \<times> json) list"

subsection \<open>Unquoting a string literal\<close>

definition hex_val :: "char \<Rightarrow> nat" where
  "hex_val c = (if byte c \<le> 57 then byte c - 48 else if byte c \<le> 70 then byte c - 55 else byte c - 87)"

text \<open>\<open>getu4\<close> reads an escape \<^verbatim>\<open>\uXXXX\<close> at the head of the text.\<close>

definition getu4 :: "string \<Rightarrow> nat option" where
  "getu4 s =
     (case s of
        b # u # h1 # h2 # h3 # h4 # rest \<Rightarrow>
          if b = backslash \<and> u = CHR ''u'' \<and> isHex h1 \<and> isHex h2 \<and> isHex h3 \<and> isHex h4
          then Some (((hex_val h1 * 16 + hex_val h2) * 16 + hex_val h3) * 16 + hex_val h4)
          else None
      | _ \<Rightarrow> None)"

text \<open>The UTF-8 encoding of a code point (\<^verbatim>\<open>utf8.EncodeRune\<close> on a valid rune).\<close>

definition EncodeRune :: "nat \<Rightarrow> string" where
  "EncodeRune r =
     (if r < 0x80 then [char_of r]
      else if r < 0x800 then [char_of (0xC0 + r div 64), char_of (0x80 + r mod 64)]
      else if r < 0x10000 then
        [char_of (0xE0 + r div 4096), char_of (0x80 + r div 64 mod 64), char_of (0x80 + r mod 64)]
      else
        [char_of (0xF0 + r div 262144), char_of (0x80 + r div 4096 mod 64),
         char_of (0x80 + r div 64 mod 64), char_of (0x80 + r mod 64)])"

definition ReplacementChar :: nat where
  "ReplacementChar = 0xFFFD"

text \<open>
  The length of the well-formed UTF-8 sequence at the head of the text, or 0 when the
  head is ill-formed (\<^verbatim>\<open>utf8.DecodeRune\<close> then yields the replacement character and
  width 1).
\<close>

definition utf8_len :: "string \<Rightarrow> nat" where
  "utf8_len p =
     (case p of
        [] \<Rightarrow> 0
      | c0 # t \<Rightarrow>
          if byte c0 < 0x80 then 1
          else if byte c0 < 0xC2 \<or> 0xF4 < byte c0 then 0
          else
            let sz = (if byte c0 < 0xE0 then 2 else if byte c0 < 0xF0 then 3 else 4);
                lo = (if byte c0 = 0xE0 then 0xA0 else if byte c0 = 0xF0 then 0x90 else 0x80);
                hi = (if byte c0 = 0xED then 0x9F else if byte c0 = 0xF4 then 0x8F else 0xBF);
                bs = map byte (take (sz - 1) t)
            in if length bs = sz - 1 \<and> lo \<le> hd bs \<and> hd bs \<le> hi \<and>
                  list_all (\<lambda>b. 0x80 \<le> b \<and> b \<le> 0xBF) (tl bs)
               then sz else 0)"

definition unescape :: "char \<Rightarrow> char" where
  "unescape c =
     (if c = CHR ''b'' then CHR 0x08
      else if c = CHR ''f'' then CHR 0x0C
      else if c = CHR ''n'' then CHR 0x0A
      else if c = CHR ''r'' then CHR 0x0D
      else if c = CHR ''t'' then CHR 0x09
      else c)"

text \<open>
  \<open>unquote\<close> is \<^verbatim>\<open>unquoteBytes\<close> on the text between the quotes of a literal that
  the scanner has accepted: escapes are replaced, a surrogate pair of two \<^verbatim>\<open>\u\<close>
  escapes becomes one code point, a lone surrogate and every ill-formed byte become
  U+FFFD.
\<close>

fun unquote :: "string \<Rightarrow> string" where
  "unquote [] = []"
| "unquote (c # cs) =
     (if c = backslash then
        (case cs of
           [] \<Rightarrow> []
         | x # xs \<Rightarrow>
             if x = CHR ''u'' then
               (case getu4 (c # cs) of
                  None \<Rightarrow> []
                | Some rr \<Rightarrow>
                    if 0xD800 \<le> rr \<and> rr < 0xE000 then
                      (case getu4 (drop 5 cs) of
                         None \<Rightarrow> EncodeRune ReplacementChar @ unquote (drop 5 cs)
                       | Some rr1 \<Rightarrow>
                           if rr < 0xDC00 \<and> 0xDC00 \<le> rr1 \<and> rr1 < 0xE000
                           then EncodeRune ((rr - 0xD800) * 1024 + (rr1 - 0xDC00) + 0x10000)
                                  @ unquote (drop 11 cs)
                           else EncodeRune ReplacementChar @ unquote (drop 5 cs))
                    else EncodeRune rr @ unquote (drop 5 cs))
             else unescape x # unquote xs)
      else if byte c < 0x80 then c # unquote cs
      else if utf8_len (c # cs) = 0 then EncodeRune ReplacementChar @ unquote cs
      else take (utf8_len (c # cs)) (c # cs) @ unquote (drop (utf8_len (c # cs) - 1) cs))"

subsection \<open>The scanner\<close>

text \<open>
  The scanner of \<^verbatim>\<open>encoding/json\<close> is a state machine that reads one byte at a time
  and keeps a stack of the arrays and objects that are open. Here each stack frame also
  collects the values read so far, so that the scanner delivers the value it has
  accepted: an array frame holds its elements, an object frame its members and the key
  that waits for its value.
\<close>

datatype frame = ArrayFrame "json list" | ObjectFrame "(string \<times> json) list" "string option"

datatype scan_state =
    BeginValue
  | BeginValueOrEmpty
  | BeginString
  | BeginStringOrEmpty
  | EndValue
  | EndTop
  | InString string
  | InStringEsc string
  | InStringEscU string nat
  | NumNeg string
  | Num0 string
  | Num1 string
  | NumDot string
  | NumDot0 string
  | NumE string
  | NumESign string
  | NumE0 string
  | InLiteral string json
  | ScanError

text \<open>
  \<open>Scanner q st res\<close>: the state \<open>q\<close>, the stack \<open>st\<close> (innermost frame first) and
  the top-level value, once it is complete.
\<close>

datatype scanner = Scanner scan_state "frame list" "json option"

definition maxNestingDepth :: nat where
  "maxNestingDepth = 10000"

definition scan_begin :: scanner where
  "scan_begin = Scanner BeginValue [] None"

definition push :: "frame \<Rightarrow> scan_state \<Rightarrow> frame list \<Rightarrow> scanner" where
  "push f q st =
     (if length (f # st) \<le> maxNestingDepth then Scanner q (f # st) None
      else Scanner ScanError (f # st) None)"

text \<open>A value is complete: it goes to the frame that is open, or it is the top-level value.\<close>

definition value_done :: "json \<Rightarrow> frame list \<Rightarrow> scanner" where
  "value_done v st =
     (case st of
        [] \<Rightarrow> Scanner EndTop [] (Some v)
      | ArrayFrame vs # fs \<Rightarrow> Scanner EndValue (ArrayFrame (vs @ [v]) # fs) None
      | ObjectFrame ms None # fs \<Rightarrow> Scanner ScanError st None
      | ObjectFrame ms (Some k) # fs \<Rightarrow> Scanner EndValue (ObjectFrame (ms @ [(k, v)]) None # fs) None)"

text \<open>A string literal is complete: it is a key when an object waits for one.\<close>

definition string_done :: "string \<Rightarrow> frame list \<Rightarrow> scanner" where
  "string_done raw st =
     (case st of
        ObjectFrame ms None # fs \<Rightarrow> Scanner EndValue (ObjectFrame ms (Some (unquote raw)) # fs) None
      | _ \<Rightarrow> value_done (JString (unquote raw)) st)"

definition begin_value :: "char \<Rightarrow> frame list \<Rightarrow> scanner" where
  "begin_value c st =
     (if c = CHR ''{'' then push (ObjectFrame [] None) BeginStringOrEmpty st
      else if c = CHR ''['' then push (ArrayFrame []) BeginValueOrEmpty st
      else if c = dquote then Scanner (InString []) st None
      else if c = CHR ''-'' then Scanner (NumNeg [c]) st None
      else if c = CHR ''0'' then Scanner (Num0 [c]) st None
      else if isDigit c then Scanner (Num1 [c]) st None
      else if c = CHR ''t'' then Scanner (InLiteral ''rue'' (JBool True)) st None
      else if c = CHR ''f'' then Scanner (InLiteral ''alse'' (JBool False)) st None
      else if c = CHR ''n'' then Scanner (InLiteral ''ull'' JNull) st None
      else Scanner ScanError st None)"

definition begin_string :: "char \<Rightarrow> frame list \<Rightarrow> scanner" where
  "begin_string c st =
     (if c = dquote then Scanner (InString []) st None else Scanner ScanError st None)"

text \<open>The byte after a value inside an array or an object (\<^verbatim>\<open>stateEndValue\<close>).\<close>

definition end_value :: "char \<Rightarrow> frame list \<Rightarrow> scanner" where
  "end_value c st =
     (if isSpace c then Scanner EndValue st None
      else
        case st of
          [] \<Rightarrow> Scanner ScanError st None
        | ArrayFrame vs # fs \<Rightarrow>
            if c = CHR '','' then Scanner BeginValue st None
            else if c = CHR '']'' then value_done (JArray vs) fs
            else Scanner ScanError st None
        | ObjectFrame ms (Some k) # fs \<Rightarrow>
            if c = CHR '':'' then Scanner BeginValue st None else Scanner ScanError st None
        | ObjectFrame ms None # fs \<Rightarrow>
            if c = CHR '','' then Scanner BeginString st None
            else if c = CHR ''}'' then value_done (JObject ms) fs
            else Scanner ScanError st None)"

text \<open>
  A number has no closing byte: the byte that cannot continue it ends it, and is then
  read in the state that follows the value.
\<close>

definition after_number :: "char \<Rightarrow> scanner \<Rightarrow> scanner" where
  "after_number c s =
     (case s of
        Scanner q st res \<Rightarrow>
          if q = EndValue then end_value c st
          else if q = EndTop \<and> \<not> isSpace c then Scanner ScanError st res
          else s)"

definition number_end :: "string \<Rightarrow> char \<Rightarrow> frame list \<Rightarrow> scanner" where
  "number_end lit c st = after_number c (value_done (JNumber lit) st)"

definition number_tail :: "string \<Rightarrow> char \<Rightarrow> frame list \<Rightarrow> scanner" where
  "number_tail lit c st =
     (if c = CHR ''.'' then Scanner (NumDot (lit @ [c])) st None
      else if isExpMark c then Scanner (NumE (lit @ [c])) st None
      else number_end lit c st)"

fun step :: "scanner \<Rightarrow> char \<Rightarrow> scanner" where
  "step (Scanner BeginValue st res) c =
     (if isSpace c then Scanner BeginValue st res else begin_value c st)"
| "step (Scanner BeginValueOrEmpty st res) c =
     (if isSpace c then Scanner BeginValueOrEmpty st res
      else if c = CHR '']'' then
        (case st of ArrayFrame vs # fs \<Rightarrow> value_done (JArray vs) fs | _ \<Rightarrow> Scanner ScanError st res)
      else begin_value c st)"
| "step (Scanner BeginStringOrEmpty st res) c =
     (if isSpace c then Scanner BeginStringOrEmpty st res
      else if c = CHR ''}'' then
        (case st of ObjectFrame ms k # fs \<Rightarrow> value_done (JObject ms) fs | _ \<Rightarrow> Scanner ScanError st res)
      else begin_string c st)"
| "step (Scanner BeginString st res) c =
     (if isSpace c then Scanner BeginString st res else begin_string c st)"
| "step (Scanner EndValue st res) c = end_value c st"
| "step (Scanner EndTop st res) c =
     (if isSpace c then Scanner EndTop st res else Scanner ScanError st res)"
| "step (Scanner (InString raw) st res) c =
     (if c = dquote then string_done raw st
      else if c = backslash then Scanner (InStringEsc (raw @ [c])) st res
      else if byte c < 0x20 then Scanner ScanError st res
      else Scanner (InString (raw @ [c])) st res)"
| "step (Scanner (InStringEsc raw) st res) c =
     (if c = CHR ''u'' then Scanner (InStringEscU (raw @ [c]) 0) st res
      else if c \<in> set ''bfnrt/'' \<or> c = backslash \<or> c = dquote
      then Scanner (InString (raw @ [c])) st res
      else Scanner ScanError st res)"
| "step (Scanner (InStringEscU raw k) st res) c =
     (if \<not> isHex c then Scanner ScanError st res
      else if k = 3 then Scanner (InString (raw @ [c])) st res
      else Scanner (InStringEscU (raw @ [c]) (Suc k)) st res)"
| "step (Scanner (NumNeg lit) st res) c =
     (if c = CHR ''0'' then Scanner (Num0 (lit @ [c])) st res
      else if isDigit c then Scanner (Num1 (lit @ [c])) st res
      else Scanner ScanError st res)"
| "step (Scanner (Num1 lit) st res) c =
     (if isDigit c then Scanner (Num1 (lit @ [c])) st res else number_tail lit c st)"
| "step (Scanner (Num0 lit) st res) c = number_tail lit c st"
| "step (Scanner (NumDot lit) st res) c =
     (if isDigit c then Scanner (NumDot0 (lit @ [c])) st res else Scanner ScanError st res)"
| "step (Scanner (NumDot0 lit) st res) c =
     (if isDigit c then Scanner (NumDot0 (lit @ [c])) st res
      else if isExpMark c then Scanner (NumE (lit @ [c])) st res
      else number_end lit c st)"
| "step (Scanner (NumE lit) st res) c =
     (if c = CHR ''+'' \<or> c = CHR ''-'' then Scanner (NumESign (lit @ [c])) st res
      else if isDigit c then Scanner (NumE0 (lit @ [c])) st res
      else Scanner ScanError st res)"
| "step (Scanner (NumESign lit) st res) c =
     (if isDigit c then Scanner (NumE0 (lit @ [c])) st res else Scanner ScanError st res)"
| "step (Scanner (NumE0 lit) st res) c =
     (if isDigit c then Scanner (NumE0 (lit @ [c])) st res else number_end lit c st)"
| "step (Scanner (InLiteral rest v) st res) c =
     (case rest of
        [] \<Rightarrow> Scanner ScanError st res
      | x # xs \<Rightarrow>
          if c \<noteq> x then Scanner ScanError st res
          else if xs = [] then value_done v st
          else Scanner (InLiteral xs v) st res)"
| "step (Scanner ScanError st res) c = Scanner ScanError st res"

text \<open>
  The end of the text (\<^verbatim>\<open>scanner.eof\<close>): a space is fed to end a number, and the text
  was valid when the top-level value is complete and no error has been met.
\<close>

definition scan_eof :: "scanner \<Rightarrow> json option" where
  "scan_eof s =
     (case step s (CHR '' '') of
        Scanner q st None \<Rightarrow> None
      | Scanner q st (Some v) \<Rightarrow> if q = ScanError then None else Some v)"

text \<open>
  \<^verbatim>\<open>checkValid\<close>, the first thing \<^verbatim>\<open>json.Unmarshal\<close> does: the whole text must be one
  JSON value, with white space around it at most.
\<close>

definition checkValid :: "string \<Rightarrow> json option" where
  "checkValid data = scan_eof (fold (\<lambda>c s. step s c) data scan_begin)"

text \<open>
  \<^verbatim>\<open>Decoder.readValue\<close>: a decoder reads the first JSON value of its stream and leaves
  what follows unread.
\<close>

fun readValue :: "scanner \<Rightarrow> string \<Rightarrow> json option" where
  "readValue s [] = scan_eof s"
| "readValue s (c # cs) =
     (case step s c of
        Scanner q st (Some v) \<Rightarrow> Some v
      | Scanner q st None \<Rightarrow> if q = ScanError then None else readValue (Scanner q st None) cs)"

subsection \<open>Storing a value into a struct\<close>

datatype json_error = SyntaxError | UnmarshalTypeError

text \<open>Only the earliest type error is kept (\<^verbatim>\<open>decodeState.saveError\<close>); decoding goes on.\<close>

definition saveError :: "json_error option \<Rightarrow> json_error \<Rightarrow> json_error option" where
  "saveError saved e = (case saved of None \<Rightarrow> Some e | Some e0 \<Rightarrow> Some e0)"

text \<open>
  A key selects a field by its name, exactly or after case folding (\<^verbatim>\<open>foldName\<close>):
  ASCII letters are put in upper case, and the two letters outside ASCII that fold to
  ASCII letters, U+017F and U+212A, become \<open>S\<close> and \<open>K\<close>. (Other runes outside ASCII
  fold among themselves; they are left as they are, which decides the same matches
  with an ASCII field name.)
\<close>

fun foldName :: "string \<Rightarrow> string" where
  "foldName [] = []"
| "foldName (c # cs) =
     (if 97 \<le> byte c \<and> byte c \<le> 122 then char_of (byte c - 32) # foldName cs
      else if take 2 (c # cs) = [CHR 0xC5, CHR 0xBF] then CHR ''S'' # foldName (drop 1 cs)
      else if take 3 (c # cs) = [CHR 0xE2, CHR 0x84, CHR 0xAA] then CHR ''K'' # foldName (drop 2 cs)
      else c # foldName cs)"

definition match_field :: "string \<Rightarrow> string \<Rightarrow> bool" where
  "match_field key name = (key = name \<or> foldName key = foldName name)"

section \<open>The program \<^verbatim>\<open>main.go\<close>\<close>

subsection \<open>Constants and types\<close>

definition stateFile :: string where
  "stateFile = ''state.json''"

text \<open>
  The alert configuration is made of untyped constants, which the compiler computes
  exactly: \<^verbatim>\<open>targetGoldPrice22K = 12700.0\<close>, \<^verbatim>\<open>resetBuffer = 200.0\<close>, and so is their
  sum in \<^verbatim>\<open>targetGoldPrice22K+resetBuffer\<close>. \<open>const_float64 n d\<close> is the float64 that
  the exact constant \<open>n / d\<close> becomes where an expression needs one.
\<close>

definition targetGoldPrice22K :: nat where
  "targetGoldPrice22K = 12700"

definition resetBuffer :: nat where
  "resetBuffer = 200"

definition const_float64 :: "nat \<Rightarrow> nat \<Rightarrow> float64" where
  "const_float64 n d = round_ratio False n d"

text \<open>The two levels that the 22K price is compared with, as float64 values.\<close>

definition target_level :: float64 where
  "target_level = const_float64 targetGoldPrice22K 1"

definition reset_level :: float64 where
  "reset_level = const_float64 (targetGoldPrice22K + resetBuffer) 1"

definition ounceToGram :: float64 where
  "ounceToGram = const_float64 311035 10000"

definition purityFactor :: float64 where
  "purityFactor = const_float64 916 1000"

definition gstFactor :: float64 where
  "gstFactor = const_float64 103 100"

record State =
  AlertTriggered :: bool

record GoldAPIResponse =
  PricePerOunce :: float64

text \<open>The zero values \<^verbatim>\<open>State{}\<close> and \<^verbatim>\<open>GoldAPIResponse{}\<close>.\<close>

definition State_zero :: State where
  "State_zero = \<lparr>AlertTriggered = False\<rparr>"

definition GoldAPIResponse_zero :: GoldAPIResponse where
  "GoldAPIResponse_zero = \<lparr>PricePerOunce = Finite False 0 (- 1074)\<rparr>"

subsection \<open>Decoding the two structs\<close>

text \<open>
  \<^verbatim>\<open>State\<close> has the one field \<^verbatim>\<open>AlertTriggered bool `json:"alert_triggered"`\<close>. The
  members of an object are stored in their order: a boolean under a matching key is
  stored, \<^verbatim>\<open>null\<close> changes nothing, any other value under a matching key is a type
  error that is saved while decoding goes on, and other keys are skipped. A top-level
  \<^verbatim>\<open>null\<close> changes nothing, and any other top-level value is a type error.
\<close>

fun object_State :: "(string \<times> json) list \<Rightarrow> json_error option \<times> State \<Rightarrow> json_error option \<times> State" where
  "object_State [] r = r"
| "object_State ((k, v) # ms) (err, s) =
     object_State ms
       (if match_field k ''alert_triggered'' then
          (case v of
             JBool b \<Rightarrow> (err, s\<lparr>AlertTriggered := b\<rparr>)
           | JNull \<Rightarrow> (err, s)
           | _ \<Rightarrow> (saveError err UnmarshalTypeError, s))
        else (err, s))"

definition decode_State :: "json \<Rightarrow> State \<Rightarrow> json_error option \<times> State" where
  "decode_State v s =
     (case v of
        JNull \<Rightarrow> (None, s)
      | JObject ms \<Rightarrow> object_State ms (None, s)
      | _ \<Rightarrow> (Some UnmarshalTypeError, s))"

text \<open>\<^verbatim>\<open>json.Unmarshal(data, &s)\<close>: the error, if any, and the struct afterwards.\<close>

definition Unmarshal_State :: "string \<Rightarrow> State \<Rightarrow> json_error option \<times> State" where
  "Unmarshal_State data s =
     (case checkValid data of
        None \<Rightarrow> (Some SyntaxError, s)
      | Some v \<Rightarrow> decode_State v s)"

text \<open>
  \<^verbatim>\<open>GoldAPIResponse\<close> has the one field \<^verbatim>\<open>PricePerOunce float64 `json:"price"`\<close>; a
  number that overflows float64 is a type error.
\<close>

fun object_GoldAPIResponse ::
  "(string \<times> json) list \<Rightarrow> json_error option \<times> GoldAPIResponse \<Rightarrow> json_error option \<times> GoldAPIResponse" where
  "object_GoldAPIResponse [] r = r"
| "object_GoldAPIResponse ((k, v) # ms) (err, d) =
     object_GoldAPIResponse ms
       (if match_field k ''price'' then
          (case v of
             JNumber lit \<Rightarrow>
               (case ParseFloat lit of
                  None \<Rightarrow> (saveError err UnmarshalTypeError, d)
                | Some x \<Rightarrow> (err, d\<lparr>PricePerOunce := x\<rparr>))
           | JNull \<Rightarrow> (err, d)
           | _ \<Rightarrow> (saveError err UnmarshalTypeError, d))
        else (err, d))"

definition decode_GoldAPIResponse :: "json \<Rightarrow> GoldAPIResponse \<Rightarrow> json_error option \<times> GoldAPIResponse" where
  "decode_GoldAPIResponse v d =
     (case v of
        JNull \<Rightarrow> (None, d)
      | JObject ms \<Rightarrow> object_GoldAPIResponse ms (None, d)
      | _ \<Rightarrow> (Some UnmarshalTypeError, d))"

text \<open>\<^verbatim>\<open>json.NewDecoder(resp.Body).Decode(&data)\<close> on a body that is read to its end.\<close>

definition Decode_GoldAPIResponse :: "string \<Rightarrow> GoldAPIResponse \<Rightarrow> json_error option \<times> GoldAPIResponse" where
  "Decode_GoldAPIResponse body d =
     (case readValue scan_begin body of
        None \<Rightarrow> (Some SyntaxError, d)
      | Some v \<Rightarrow> decode_GoldAPIResponse v d)"

text \<open>
  \<^verbatim>\<open>json.MarshalIndent(s, "", "  ")\<close> for a \<^verbatim>\<open>State\<close>, which cannot fail: the object on
  three lines, the member indented by two spaces.
\<close>

definition MarshalIndent_State :: "State \<Rightarrow> string" where
  "MarshalIndent_State s =
     ''{'' @ [newline] @ ''  '' @ [dquote] @ ''alert_triggered'' @ [dquote] @ '': '' @
     (if AlertTriggered s then ''true'' else ''false'') @ [newline] @ ''}''"

subsection \<open>The world outside the process\<close>

text \<open>
  What a run reads from outside and what it does there is explicit: the three
  environment variables read at start-up, the answer of each of the two servers to a
  request, the files, and the trace of the requests sent and files written, in their
  order. A server either cannot be reached or answers with a status code and a body.
  (The log lines that the program prints are left out of the trace.)
\<close>

datatype http_result = TransportError string | Response int string

datatype event =
    EvGet string "(string \<times> string) list"
  | EvPostForm string "(string \<times> string) list"
  | EvWriteFile string string

record world =
  goldAPIKey :: string
  pushoverAppToken :: string
  pushoverUserKey :: string
  goldapi :: "(string \<times> string) list \<Rightarrow> http_result"
  pushover :: "(string \<times> string) list \<Rightarrow> http_result"
  files :: "string \<Rightarrow> string option"
  readable :: bool
  writable :: bool
  trace :: "event list"

datatype error =
    HttpError string
  | GoldapiStatus int
  | PushoverReturned int
  | JsonError json_error

text \<open>
  \<^verbatim>\<open>os.ReadFile\<close> fails when the file is missing or cannot be read. \<^verbatim>\<open>os.WriteFile\<close>
  replaces the content of the file; a write that fails is taken to leave the file as it
  was. (The permission bits \<^verbatim>\<open>0644\<close>, which matter only when the file is created, are
  left out.)
\<close>

definition ReadFile :: "world \<Rightarrow> string \<Rightarrow> string option" where
  "ReadFile w name = (if readable w then files w name else None)"

definition WriteFile :: "string \<Rightarrow> string \<Rightarrow> world \<Rightarrow> world" where
  "WriteFile name data w =
     w\<lparr>files := (if writable w then (files w)(name \<mapsto> data) else files w),
       trace := trace w @ [EvWriteFile name data]\<rparr>"

subsection \<open>The functions of the program\<close>

definition loadState :: "world \<Rightarrow> State" where
  "loadState w =
     (case ReadFile w stateFile of
        None \<Rightarrow> State_zero
      | Some data \<Rightarrow> snd (Unmarshal_State data State_zero))"

definition saveState :: "State \<Rightarrow> world \<Rightarrow> world" where
  "saveState s w = WriteFile stateFile (MarshalIndent_State s) w"

definition convertTo22K :: "float64 \<Rightarrow> float64" where
  "convertTo22K price24K = float_mul (float_mul price24K purityFactor) gstFactor"

definition goldapi_url :: string where
  "goldapi_url = ''https://www.goldapi.io/api/XAU/INR''"

definition goldapi_headers :: "world \<Rightarrow> (string \<times> string) list" where
  "goldapi_headers w =
     [(''x-access-token'', goldAPIKey w), (''Content-Type'', ''application/json'')]"

definition fetchGoldPricePerGram :: "world \<Rightarrow> (error + float64) \<times> world" where
  "fetchGoldPricePerGram w =
     (let w1 = w\<lparr>trace := trace w @ [EvGet goldapi_url (goldapi_headers w)]\<rparr> in
      case goldapi w (goldapi_headers w) of
        TransportError e \<Rightarrow> (Inl (HttpError e), w1)
      | Response code body \<Rightarrow>
          if code \<noteq> 200 then (Inl (GoldapiStatus code), w1)
          else
            case Decode_GoldAPIResponse body GoldAPIResponse_zero of
              (Some e, d) \<Rightarrow> (Inl (JsonError e), w1)
            | (None, d) \<Rightarrow> (Inr (float_div (PricePerOunce d) ounceToGram), w1))"

definition pushover_url :: string where
  "pushover_url = ''https://api.pushover.net/1/messages.json''"

definition alert_title :: string where
  "alert_title = [CHR 0xF0, CHR 0x9F, CHR 0x9A, CHR 0xA8] @ '' Gold Price Alert''"

definition pushover_form :: "world \<Rightarrow> string \<Rightarrow> (string \<times> string) list" where
  "pushover_form w message =
     [(''token'', pushoverAppToken w), (''user'', pushoverUserKey w), (''title'', alert_title),
      (''message'', message), (''priority'', ''1'')]"

definition sendPushover :: "string \<Rightarrow> world \<Rightarrow> error option \<times> world" where
  "sendPushover message w =
     (let w1 = w\<lparr>trace := trace w @ [EvPostForm pushover_url (pushover_form w message)]\<rparr> in
      case pushover w (pushover_form w message) of
        TransportError e \<Rightarrow> (Some (HttpError e), w1)
      | Response code body \<Rightarrow>
          if code \<noteq> 200 then (Some (PushoverReturned code), w1) else (None, w1))"

text \<open>
  The message of the alert is \<^verbatim>\<open>fmt.Sprintf\<close> of the two prices with the verb
  \<^verbatim>\<open>%.2f\<close>, each after a rupee sign (three bytes in UTF-8): the text
  \<^verbatim>\<open>22K Gold hit \<close>, the 22K price, \<^verbatim>\<open> / gram\<close>, a new line, \<^verbatim>\<open>Target: \<close> and the
  target price.
\<close>

definition rupee :: string where
  "rupee = [CHR 0xE2, CHR 0x82, CHR 0xB9]"

definition alert_message :: "float64 \<Rightarrow> string" where
  "alert_message price22K =
     ''22K Gold hit '' @ rupee @ format_2f price22K @ '' / gram'' @ [newline] @
     ''Target: '' @ rupee @ format_2f target_level"

text \<open>
  \<open>run\<close> returns the local variable \<^verbatim>\<open>state\<close> as it is when the function returns,
  and the world after the run. The two conditions are the guards of the two \<^verbatim>\<open>if\<close>
  statements; the second one reads the variable after the first statement.
\<close>

definition alert_condition :: "float64 \<Rightarrow> State \<Rightarrow> bool" where
  "alert_condition price22K state =
     (float_le price22K target_level \<and> \<not> AlertTriggered state)"

definition reset_condition :: "float64 \<Rightarrow> State \<Rightarrow> bool" where
  "reset_condition price22K state =
     (float_gt price22K reset_level \<and> AlertTriggered state)"

definition reset_logic :: "float64 \<Rightarrow> State \<Rightarrow> world \<Rightarrow> State \<times> world" where
  "reset_logic price22K state w =
     (if reset_condition price22K state
      then (state\<lparr>AlertTriggered := False\<rparr>, saveState (state\<lparr>AlertTriggered := False\<rparr>) w)
      else (state, w))"

definition run :: "world \<Rightarrow> State \<times> world" where
  "run w =
     (let state = loadState w in
      case fetchGoldPricePerGram w of
        (Inl err, w1) \<Rightarrow> (state, w1)
      | (Inr price24K, w1) \<Rightarrow>
          let price22K = convertTo22K price24K in
          if alert_condition price22K state then
            (case sendPushover (alert_message price22K) w1 of
               (Some err, w2) \<Rightarrow> (state, w2)
             | (None, w2) \<Rightarrow>
                 reset_logic price22K (state\<lparr>AlertTriggered := True\<rparr>)
                   (saveState (state\<lparr>AlertTriggered := True\<rparr>) w2))
          else reset_logic price22K state w1)"

subsection \<open>What a run did\<close>

text \<open>
  The events that a run adds to the trace, the messages of the notifications among
  them, and the contents written to the state file.
\<close>

definition run_events :: "world \<Rightarrow> event list" where
  "run_events w = drop (length (trace w)) (trace (snd (run w)))"

definition form_value :: "(string \<times> string) list \<Rightarrow> string \<Rightarrow> string" where
  "form_value form key = (case map_of form key of None \<Rightarrow> [] | Some v \<Rightarrow> v)"

definition notifications :: "event list \<Rightarrow> string list" where
  "notifications evs =
     concat (map (\<lambda>ev. case ev of EvPostForm u form \<Rightarrow> [form_value form ''message''] | _ \<Rightarrow> []) evs)"

definition state_writes :: "event list \<Rightarrow> string list" where
  "state_writes evs =
     concat (map (\<lambda>ev. case ev of EvWriteFile name data \<Rightarrow> (if name = stateFile then [data] else [])
                         | _ \<Rightarrow> []) evs)"

text \<open>\<^verbatim>\<open>strings.Contains\<close>.\<close>

fun Contains :: "string \<Rightarrow> string \<Rightarrow> bool" where
  "Contains [] sub = (sub = [])"
| "Contains (c # cs) sub = (take (length sub) (c # cs) = sub \<or> Contains cs sub)"

subsection \<open>Example worlds\<close>

text \<open>
  A world in which the price server answers 200 with the given body, the notification
  server gives the given answer, and the state file has the given content, if any.
\<close>

definition example_world :: "string \<Rightarrow> http_result \<Rightarrow> string option \<Rightarrow> world" where
  "example_world body reply content =
     \<lparr>goldAPIKey = ''key'', pushoverAppToken = ''app'', pushoverUserKey = ''user'',
      goldapi = (\<lambda>headers. Response 200 body),
      pushover = (\<lambda>form. reply),
      files = (\<lambda>name. if name = stateFile then content else None),
      readable = True, writable = True, trace = []\<rparr>"

subsection \<open>The members of a decoded text\<close>

text \<open>
  The members of the top-level value when it is an object; whether one of them has a key
  that selects the field \<^verbatim>\<open>AlertTriggered\<close>; and whether one of those holds \<^verbatim>\<open>true\<close>.
\<close>

definition top_members :: "json \<Rightarrow> (string \<times> json) list" where
  "top_members v = (case v of JObject ms \<Rightarrow> ms | _ \<Rightarrow> [])"

definition has_alert_member :: "json \<Rightarrow> bool" where
  "has_alert_member v = list_ex (\<lambda>m. match_field (fst m) ''alert_triggered'') (top_members v)"

definition stores_true :: "json \<Rightarrow> bool" where
  "stores_true v =
     list_ex (\<lambda>m. match_field (fst m) ''alert_triggered'' \<and> snd m = JBool True) (top_members v)"

section \<open>Evaluation and auxiliary lemmas\<close>

lemmas scan_defs =
  scan_begin_def begin_value_def push_def maxNestingDepth_def begin_string_def dquote_def
  backslash_def newline_def isSpace_def isDigit_def isHex_def byte_def string_done_def value_done_def
  end_value_def number_tail_def number_end_def after_number_def isExpMark_def scan_eof_def
  checkValid_def

lemmas float_defs = round_ratio_def bitlen.simps Let_def const_float64_def

lemma example_load:
  "loadState (example_world body reply content) =
     (case content of None \<Rightarrow> State_zero | Some data \<Rightarrow> snd (Unmarshal_State data State_zero))"
  by (simp add: loadState_def ReadFile_def example_world_def)

lemma example_fetch:
  assumes "Decode_GoldAPIResponse body GoldAPIResponse_zero = (None, d)"
  shows "fst (fetchGoldPricePerGram (example_world body reply content)) =
           Inr (float_div (PricePerOunce d) ounceToGram)"
  using assms by (simp add: fetchGoldPricePerGram_def example_world_def Let_def)

lemma decode_price_object:
  assumes "readValue scan_begin body = Some (JObject [(''price'', JNumber lit)])"
    and "ParseFloat lit = Some p"
  shows "Decode_GoldAPIResponse body GoldAPIResponse_zero = (None, \<lparr>PricePerOunce = p\<rparr>)"
  using assms
  by (simp add: Decode_GoldAPIResponse_def decode_GoldAPIResponse_def match_field_def
      GoldAPIResponse_zero_def)

lemma body_387000:
  "readValue scan_begin ''{\"price\": 387000.0}'' = Some (JObject [(''price'', JNumber ''387000.0'')])"
  by (simp add: scan_defs)

lemma body_422000:
  "readValue scan_begin ''{\"price\": 422000}'' = Some (JObject [(''price'', JNumber ''422000'')])"
  by (simp add: scan_defs)

lemma body_430000:
  "readValue scan_begin ''{\"price\": 430000}'' = Some (JObject [(''price'', JNumber ''430000'')])"
  by (simp add: scan_defs)

lemma parse_387000: "ParseFloat ''387000.0'' = Some (Finite False 6648609374208000 (- 34))"
  by (simp add: ParseFloat_def isExpMark_def digits_val_def byte_def float_defs)

lemma parse_422000: "ParseFloat ''422000'' = Some (Finite False 7249904795648000 (- 34))"
  by (simp add: ParseFloat_def isExpMark_def digits_val_def byte_def float_defs)

lemma parse_430000: "ParseFloat ''430000'' = Some (Finite False 7387343749120000 (- 34))"
  by (simp add: ParseFloat_def isExpMark_def digits_val_def byte_def float_defs)

lemma ounceToGram_eq: "ounceToGram = Finite False 8754856938119889 (- 48)"
  by (simp add: ounceToGram_def float_defs)

lemma purityFactor_eq: "purityFactor = Finite False 8250594517342749 (- 53)"
  by (simp add: purityFactor_def float_defs)

lemma gstFactor_eq: "gstFactor = Finite False 4638707616191611 (- 52)"
  by (simp add: gstFactor_def float_defs)

lemma per_gram_387000:
  "float_div (Finite False 6648609374208000 (- 34)) ounceToGram = Finite False 6840243058647933 (- 39)"
  by (simp add: ounceToGram_eq float_defs)

lemma per_gram_422000:
  "float_div (Finite False 7249904795648000 (- 34)) ounceToGram = Finite False 7458869691858987 (- 39)"
  by (simp add: ounceToGram_eq float_defs)

lemma per_gram_430000:
  "float_div (Finite False 7387343749120000 (- 34)) ounceToGram = Finite False 7600270065164370 (- 39)"
  by (simp add: ounceToGram_eq float_defs)

lemma convert_387000:
  "convertTo22K (Finite False 6840243058647933 (- 39)) = Finite False 6453632520973152 (- 39)"
  by (simp add: convertTo22K_def purityFactor_eq gstFactor_eq float_defs)

lemma convert_422000:
  "convertTo22K (Finite False 7458869691858987 (- 39)) = Finite False 7037294376875117 (- 39)"
  by (simp add: convertTo22K_def purityFactor_eq gstFactor_eq float_defs)

lemma convert_430000:
  "convertTo22K (Finite False 7600270065164370 (- 39)) = Finite False 7170702801081280 (- 39)"
  by (simp add: convertTo22K_def purityFactor_eq gstFactor_eq float_defs)

lemma target_level_eq: "target_level = Finite False 6981898836377600 (- 39)"
  by (simp add: target_level_def const_float64_def targetGoldPrice22K_def round_ratio_def
      bitlen.simps Let_def)

lemma reset_level_eq: "reset_level = Finite False 7091849999155200 (- 39)"
  by (simp add: reset_level_def const_float64_def targetGoldPrice22K_def resetBuffer_def
      round_ratio_def bitlen.simps Let_def)

lemma target_level_val: "float_val False 6981898836377600 (- 39) = 12700"
  by (simp add: float_val_def)

lemma reset_level_val: "float_val False 7091849999155200 (- 39) = 12900"
  by (simp add: float_val_def)

lemma le_target_not_gt_reset:
  assumes "float_le p target_level"
  shows "\<not> float_gt p reset_level"
proof (cases p)
  case (Finite s m e)
  with assms have "float_val s m e \<le> 12700"
    by (simp add: target_level_eq target_level_val)
  then have "\<not> 12900 < float_val s m e" by simp
  with Finite show ?thesis by (simp add: reset_level_eq reset_level_val)
next
  case (Infinite s)
  with assms show ?thesis by (simp add: target_level_eq reset_level_eq)
next
  case NaN
  then show ?thesis by simp
qed

lemma gt_target_not_le:
  assumes "float_gt p target_level"
  shows "\<not> float_le p target_level"
proof (cases p)
  case (Finite s m e)
  with assms show ?thesis by (simp add: target_level_eq)
next
  case (Infinite s)
  with assms show ?thesis by (simp add: target_level_eq)
next
  case NaN
  with assms show ?thesis by simp
qed

lemma le_reset_not_gt:
  assumes "float_le p reset_level"
  shows "\<not> float_gt p reset_level"
proof (cases p)
  case (Finite s m e)
  with assms show ?thesis by (simp add: reset_level_eq)
next
  case (Infinite s)
  with assms show ?thesis by (simp add: reset_level_eq)
next
  case NaN
  with assms show ?thesis by simp
qed

lemma fetch_world:
  "snd (fetchGoldPricePerGram w) = w\<lparr>trace := trace w @ [EvGet goldapi_url (goldapi_headers w)]\<rparr>"
  by (simp add: fetchGoldPricePerGram_def Let_def split: http_result.splits prod.splits option.splits)

lemma fetch_eq:
  assumes "fst (fetchGoldPricePerGram w) = r"
  shows "fetchGoldPricePerGram w = (r, w\<lparr>trace := trace w @ [EvGet goldapi_url (goldapi_headers w)]\<rparr>)"
  using assms fetch_world [of w] by (metis prod.collapse)

lemma State_update_eq [simp]: "(s::State)\<lparr>AlertTriggered := b\<rparr> = \<lparr>AlertTriggered = b\<rparr>"
  by (cases s) simp

lemma State_eq_iff: "(s::State) = t \<longleftrightarrow> AlertTriggered s = AlertTriggered t"
  by (cases s, cases t) simp

lemma run_alert_sent:
  assumes "fst (fetchGoldPricePerGram w) = Inr price24K"
    and "float_le (convertTo22K price24K) target_level"
    and "\<not> AlertTriggered (loadState w)"
    and "pushover w (pushover_form w (alert_message (convertTo22K price24K))) = Response 200 body"
  shows "run w =
    (\<lparr>AlertTriggered = True\<rparr>,
     w\<lparr>files := (if writable w then (files w)(stateFile \<mapsto> MarshalIndent_State \<lparr>AlertTriggered = True\<rparr>)
                 else files w),
       trace := trace w @
         [EvGet goldapi_url (goldapi_headers w),
          EvPostForm pushover_url (pushover_form w (alert_message (convertTo22K price24K))),
          EvWriteFile stateFile (MarshalIndent_State \<lparr>AlertTriggered = True\<rparr>)]\<rparr>)"
  using assms le_target_not_gt_reset [OF assms(2)]
  by (simp add: run_def fetch_eq [OF assms(1)] Let_def alert_condition_def sendPushover_def
      pushover_form_def reset_logic_def reset_condition_def saveState_def WriteFile_def)

lemma sendPushover_world:
  "snd (sendPushover msg w) = w\<lparr>trace := trace w @ [EvPostForm pushover_url (pushover_form w msg)]\<rparr>"
  by (simp add: sendPushover_def Let_def split: http_result.splits)

lemma sendPushover_trace_indep:
  "fst (sendPushover msg (w\<lparr>trace := t\<rparr>)) = fst (sendPushover msg w)"
  by (simp add: sendPushover_def Let_def pushover_form_def split: http_result.splits)

lemma run_alert_failed:
  assumes "fst (fetchGoldPricePerGram w) = Inr price24K"
    and "float_le (convertTo22K price24K) target_level"
    and "\<not> AlertTriggered (loadState w)"
    and "fst (sendPushover (alert_message (convertTo22K price24K)) w) = Some err"
  shows "run w =
    (loadState w,
     w\<lparr>trace := trace w @
         [EvGet goldapi_url (goldapi_headers w),
          EvPostForm pushover_url (pushover_form w (alert_message (convertTo22K price24K)))]\<rparr>)"
proof -
  let ?w1 = "w\<lparr>trace := trace w @ [EvGet goldapi_url (goldapi_headers w)]\<rparr>"
  let ?msg = "alert_message (convertTo22K price24K)"
  have "fst (sendPushover ?msg ?w1) = Some err"
    using assms(4) by (simp add: sendPushover_trace_indep)
  moreover have "snd (sendPushover ?msg ?w1) =
      w\<lparr>trace := trace w @ [EvGet goldapi_url (goldapi_headers w),
                               EvPostForm pushover_url (pushover_form w ?msg)]\<rparr>"
    by (simp add: sendPushover_world pushover_form_def)
  ultimately have "sendPushover ?msg ?w1 =
      (Some err, w\<lparr>trace := trace w @ [EvGet goldapi_url (goldapi_headers w),
                               EvPostForm pushover_url (pushover_form w ?msg)]\<rparr>)"
    by (metis prod.collapse)
  then show ?thesis
    using assms(2,3)
    by (simp add: run_def fetch_eq [OF assms(1)] Let_def alert_condition_def)
qed

lemma run_no_transition:
  assumes "fst (fetchGoldPricePerGram w) = Inr price24K"
    and "\<not> alert_condition (convertTo22K price24K) (loadState w)"
    and "\<not> reset_condition (convertTo22K price24K) (loadState w)"
  shows "run w = (loadState w, w\<lparr>trace := trace w @ [EvGet goldapi_url (goldapi_headers w)]\<rparr>)"
  using assms(2,3) by (simp add: run_def fetch_eq [OF assms(1)] Let_def reset_logic_def)

lemma run_fetch_failed:
  assumes "fst (fetchGoldPricePerGram w) = Inl err"
  shows "run w = (loadState w, w\<lparr>trace := trace w @ [EvGet goldapi_url (goldapi_headers w)]\<rparr>)"
  by (simp add: run_def fetch_eq [OF assms(1)] Let_def)

lemma run_reset:
  assumes "fst (fetchGoldPricePerGram w) = Inr price24K"
    and "float_gt (convertTo22K price24K) reset_level"
    and "AlertTriggered (loadState w)"
  shows "run w =
    (\<lparr>AlertTriggered = False\<rparr>,
     w\<lparr>files := (if writable w then (files w)(stateFile \<mapsto> MarshalIndent_State \<lparr>AlertTriggered = False\<rparr>)
                 else files w),
       trace := trace w @
         [EvGet goldapi_url (goldapi_headers w),
          EvWriteFile stateFile (MarshalIndent_State \<lparr>AlertTriggered = False\<rparr>)]\<rparr>)"
  using assms(2,3)
  by (simp add: run_def fetch_eq [OF assms(1)] Let_def alert_condition_def
      reset_logic_def reset_condition_def saveState_def WriteFile_def)

lemma sendPushover_fails_500:
  "fst (sendPushover msg (example_world body (Response 500 []) content)) = Some (PushoverReturned 500)"
  by (simp add: sendPushover_def example_world_def Let_def)

lemma unmarshal_marshal: "Unmarshal_State (MarshalIndent_State s) s0 = (None, s)"
proof (cases "AlertTriggered s")
  case True
  then have "MarshalIndent_State s = ''{'' @ [newline] @ ''  \"alert_triggered\": true'' @ [newline] @ ''}''"
    by (simp add: MarshalIndent_State_def dquote_def)
  moreover have "checkValid (''{'' @ [newline] @ ''  \"alert_triggered\": true'' @ [newline] @ ''}'')
      = Some (JObject [(''alert_triggered'', JBool True)])"
    by (simp add: scan_defs)
  ultimately have "Unmarshal_State (MarshalIndent_State s) s0 = (None, \<lparr>AlertTriggered = True\<rparr>)"
    by (simp add: Unmarshal_State_def decode_State_def match_field_def)
  with True show ?thesis by (simp add: State_eq_iff)
next
  case False
  then have "MarshalIndent_State s = ''{'' @ [newline] @ ''  \"alert_triggered\": false'' @ [newline] @ ''}''"
    by (simp add: MarshalIndent_State_def dquote_def)
  moreover have "checkValid (''{'' @ [newline] @ ''  \"alert_triggered\": false'' @ [newline] @ ''}'')
      = Some (JObject [(''alert_triggered'', JBool False)])"
    by (simp add: scan_defs)
  ultimately have "Unmarshal_State (MarshalIndent_State s) s0 = (None, \<lparr>AlertTriggered = False\<rparr>)"
    by (simp add: Unmarshal_State_def decode_State_def match_field_def)
  with False show ?thesis by (simp add: State_eq_iff)
qed

lemma example_load_saved:
  "loadState (example_world body reply (Some (MarshalIndent_State s))) = s"
  by (simp add: example_load unmarshal_marshal)

lemma fetch_422000:
  "fst (fetchGoldPricePerGram (example_world ''{\"price\": 422000}'' reply content)) =
     Inr (Finite False 7458869691858987 (- 39))"
  using example_fetch [OF decode_price_object [OF body_422000 parse_422000]]
  by (simp add: per_gram_422000)

lemma fetch_430000:
  "fst (fetchGoldPricePerGram (example_world ''{\"price\": 430000}'' reply content)) =
     Inr (Finite False 7600270065164370 (- 39))"
  using example_fetch [OF decode_price_object [OF body_430000 parse_430000]]
  by (simp add: per_gram_430000)

lemma dead_zone_422000:
  "float_gt (Finite False 7037294376875117 (- 39)) target_level \<and>
   float_le (Finite False 7037294376875117 (- 39)) reset_level"
  by (simp add: target_level_eq reset_level_eq float_val_def)

lemma gt_reset_430000: "float_gt (Finite False 7170702801081280 (- 39)) reset_level"
  by (simp add: reset_level_eq float_val_def)

lemma run_events_eq:
  assumes "run w = (s, w\<lparr>files := fs, trace := trace w @ evs\<rparr>)"
  shows "run_events w = evs" and "trace (snd (run w)) = trace w @ evs"
  using assms by (simp_all add: run_events_def)

lemma run_events_eq':
  assumes "run w = (s, w\<lparr>trace := trace w @ evs\<rparr>)"
  shows "run_events w = evs" and "trace (snd (run w)) = trace w @ evs"
  using assms by (simp_all add: run_events_def)

lemma sendPushover_ok:
  assumes "fst (sendPushover msg w) = None"
  shows "\<exists>body. pushover w (pushover_form w msg) = Response 200 body"
  using assms by (simp add: sendPushover_def Let_def split: http_result.splits if_splits)

lemma alert_reset_exclusive:
  "\<not> (alert_condition price22K s \<and> reset_condition price22K s')"
  using le_target_not_gt_reset [of price22K]
  by (auto simp add: alert_condition_def reset_condition_def)

text \<open>The outcome of a run, whatever the world: at most one write, made exactly when the flag changes.\<close>

lemma run_writes:
  "trace (snd (run w)) = trace w @ run_events w \<and>
   length (state_writes (run_events w)) \<le> 1 \<and>
   (state_writes (run_events w) \<noteq> [] \<longleftrightarrow> AlertTriggered (fst (run w)) \<noteq> AlertTriggered (loadState w)) \<and>
   (state_writes (run_events w) = [] \<longrightarrow> files (snd (run w)) = files w)"
proof (cases "fst (fetchGoldPricePerGram w)")
  case (Inl err)
  note r = run_fetch_failed [OF Inl]
  show ?thesis
    using run_events_eq' [OF r] by (simp add: r state_writes_def)
next
  case (Inr price24K)
  let ?p = "convertTo22K price24K"
  show ?thesis
  proof (cases "alert_condition ?p (loadState w)")
    case True
    then have le: "float_le ?p target_level" and idle: "\<not> AlertTriggered (loadState w)"
      by (simp_all add: alert_condition_def)
    show ?thesis
    proof (cases "fst (sendPushover (alert_message ?p) w)")
      case None
      from sendPushover_ok [OF None] obtain body
        where "pushover w (pushover_form w (alert_message ?p)) = Response 200 body" ..
      note r = run_alert_sent [OF Inr le idle this]
      show ?thesis
        using run_events_eq [OF r] idle by (simp add: r state_writes_def)
    next
      case (Some err)
      note r = run_alert_failed [OF Inr le idle Some]
      show ?thesis
        using run_events_eq' [OF r] by (simp add: r state_writes_def)
    qed
  next
    case False
    show ?thesis
    proof (cases "reset_condition ?p (loadState w)")
      case True
      then have gt: "float_gt ?p reset_level" and trig: "AlertTriggered (loadState w)"
        by (simp_all add: reset_condition_def)
      note r = run_reset [OF Inr gt trig]
      show ?thesis
        using run_events_eq [OF r] trig by (simp add: r state_writes_def)
    next
      case no_reset: False
      note r = run_no_transition [OF Inr False no_reset]
      show ?thesis
        using run_events_eq' [OF r] by (simp add: r state_writes_def)
    qed
  qed
qed

lemma run_example_dead_zone:
  "run (example_world ''{\"price\": 422000}'' reply (Some (MarshalIndent_State \<lparr>AlertTriggered = True\<rparr>))) =
     (\<lparr>AlertTriggered = True\<rparr>,
      (example_world ''{\"price\": 422000}'' reply (Some (MarshalIndent_State \<lparr>AlertTriggered = True\<rparr>)))
        \<lparr>trace := [EvGet goldapi_url [(''x-access-token'', ''key''), (''Content-Type'', ''application/json'')]]\<rparr>)"
proof -
  let ?w = "example_world ''{\"price\": 422000}'' reply (Some (MarshalIndent_State \<lparr>AlertTriggered = True\<rparr>))"
  have ld: "loadState ?w = \<lparr>AlertTriggered = True\<rparr>"
    by (rule example_load_saved)
  have a: "\<not> alert_condition (convertTo22K (Finite False 7458869691858987 (- 39))) (loadState ?w)"
    by (simp add: alert_condition_def ld)
  have b: "\<not> reset_condition (convertTo22K (Finite False 7458869691858987 (- 39))) (loadState ?w)"
    using dead_zone_422000 le_reset_not_gt [of "Finite False 7037294376875117 (- 39)"]
    by (simp add: reset_condition_def convert_422000)
  from run_no_transition [OF fetch_422000 a b] ld show ?thesis
    by (simp add: example_world_def goldapi_headers_def)
qed

lemma le_target_387000: "float_le (Finite False 6453632520973152 (- 39)) target_level"
  by (simp add: target_level_eq float_val_def)

lemma fetch_387000:
  "fst (fetchGoldPricePerGram (example_world ''{\"price\": 387000.0}'' reply content)) =
     Inr (Finite False 6840243058647933 (- 39))"
  using example_fetch [OF decode_price_object [OF body_387000 parse_387000]]
  by (simp add: per_gram_387000)

lemma message_387000:
  "alert_message (Finite False 6453632520973152 (- 39)) =
     ''22K Gold hit '' @ rupee @ ''11739.09 / gram'' @ [newline] @ ''Target: '' @ rupee @ ''12700.00''"
  by (simp add: alert_message_def target_level_eq Let_def decimal.simps digit_char_def)

lemma object_State_not_true:
  assumes "\<not> list_ex (\<lambda>m. match_field (fst m) ''alert_triggered'' \<and> snd m = JBool True) ms"
    and "\<not> AlertTriggered s"
  shows "\<not> AlertTriggered (snd (object_State ms (err, s)))"
  using assms
proof (induction ms arbitrary: err s)
  case Nil
  then show ?case by simp
next
  case (Cons m ms)
  obtain k v where m: "m = (k, v)" by (cases m)
  from Cons.prems(1) have rest: "\<not> list_ex (\<lambda>m. match_field (fst m) ''alert_triggered'' \<and> snd m = JBool True) ms"
    by simp
  show ?case
  proof (cases "match_field k ''alert_triggered''")
    case False
    with Cons.IH [OF rest Cons.prems(2)] m show ?thesis by simp
  next
    case True
    with Cons.prems(1) m have nt: "v \<noteq> JBool True" by simp
    show ?thesis
    proof (cases v)
      case (JBool b)
      with nt have "\<not> b" by simp
      then have "\<not> AlertTriggered (s\<lparr>AlertTriggered := b\<rparr>)" by simp
      from Cons.IH [OF rest this] m True JBool show ?thesis by simp
    qed (use Cons.IH [OF rest Cons.prems(2)] m True in simp_all)
  qed
qed

lemma decode_State_not_true:
  assumes "\<not> stores_true v"
  shows "snd (decode_State v State_zero) = State_zero"
proof -
  have "\<not> AlertTriggered (snd (decode_State v State_zero))"
  proof (cases v)
    case (JObject ms)
    with assms object_State_not_true [of ms State_zero None] show ?thesis
      by (simp add: decode_State_def stores_true_def top_members_def State_zero_def)
  qed (simp_all add: decode_State_def State_zero_def)
  then show ?thesis by (simp add: State_eq_iff State_zero_def)
qed

lemma has_member_if_stores_true: "stores_true v \<Longrightarrow> has_alert_member v"
  by (auto simp add: stores_true_def has_alert_member_def list_ex_iff)

lemma example_read:
  "ReadFile (example_world body reply content) stateFile = content"
  by (simp add: ReadFile_def example_world_def)

lemma valid_string_yes:
  "checkValid ''{\"alert_triggered\": \"yes\"}'' = Some (JObject [(''alert_triggered'', JString ''yes'')])"
  by (simp add: scan_defs)

lemma valid_duplicate_key:
  "checkValid ''{\"alert_triggered\": true, \"alert_triggered\": 1}'' =
     Some (JObject [(''alert_triggered'', JBool True), (''alert_triggered'', JNumber ''1'')])"
  by (simp add: scan_defs)

lemma valid_upper_case_key:
  "checkValid ''{\"ALERT_TRIGGERED\": true}'' = Some (JObject [(''ALERT_TRIGGERED'', JBool True)])"
  by (simp add: scan_defs)

lemma valid_empty_object: "checkValid ''{}'' = Some (JObject [])"
  by (simp add: scan_defs)

lemma invalid_text: "checkValid ''not json'' = None"
  by (simp add: scan_defs)

lemma match_upper_case: "match_field ''ALERT_TRIGGERED'' ''alert_triggered''"
  by (simp add: match_field_def byte_def char_of_def bit_0)

lemma fetch_of_body:
  assumes "goldapi w (goldapi_headers w) = Response 200 body"
    and "Decode_GoldAPIResponse body GoldAPIResponse_zero = (None, d)"
  shows "fst (fetchGoldPricePerGram w) = Inr (float_div (PricePerOunce d) ounceToGram)"
  using assms by (simp add: fetchGoldPricePerGram_def Let_def)

lemma format_387000: "format_2f (Finite False 6453632520973152 (- 39)) = ''11739.09''"
  by (simp add: Let_def decimal.simps digit_char_def)

lemma message_contains_11739:
  "Contains (''22K Gold hit '' @ rupee @ ''11739.09 / gram'' @ [newline] @ ''Target: '' @ rupee @ ''12700.00'')
     ''11739.09''"
  by (simp add: rupee_def newline_def)

lemma message_lacks_11736:
  "\<not> Contains (''22K Gold hit '' @ rupee @ ''11739.09 / gram'' @ [newline] @ ''Target: '' @ rupee @ ''12700.00'')
     ''11736.50''"
  by (simp add: rupee_def newline_def)

lemma notifications_example_alert:
  "notifications (run_events (example_world ''{\"price\": 387000.0}'' (Response 200 []) None)) =
     [''22K Gold hit '' @ rupee @ ''11739.09 / gram'' @ [newline] @ ''Target: '' @ rupee @ ''12700.00'']"
proof -
  let ?w = "example_world ''{\"price\": 387000.0}'' (Response 200 []) None"
  have h2: "float_le (convertTo22K (Finite False 6840243058647933 (- 39))) target_level"
    by (simp add: convert_387000 le_target_387000)
  have h3: "\<not> AlertTriggered (loadState ?w)"
    by (simp add: example_load State_zero_def)
  have h4: "pushover ?w (pushover_form ?w (alert_message (convertTo22K (Finite False 6840243058647933 (- 39)))))
      = Response 200 []"
    by (simp add: example_world_def)
  note r = run_alert_sent [OF fetch_387000 h2 h3 h4]
  have "notifications (run_events ?w) = [alert_message (convertTo22K (Finite False 6840243058647933 (- 39)))]"
    unfolding run_events_eq(1) [OF r]
    by (simp add: notifications_def form_value_def pushover_form_def)
  then show ?thesis
    by (simp only: convert_387000 message_387000)
qed

lemma sendPushover_example_ok:
  "fst (sendPushover msg (example_world body (Response 200 []) content)) = None"
  by (simp add: sendPushover_def example_world_def Let_def)

text \<open>
  Some known values, as a check of the definitions of this section: the float64 nearest
  to 0.1 is \<open>0x1.999999999999ap-4\<close>; 0.125 is a tie between 0.12 and 0.13 and is
  printed as the even one; a negative zero keeps its sign.
\<close>

lemma float64_tenth: "const_float64 1 10 = Finite False 0x1999999999999A (- 56)"
  by (simp add: float_defs)

lemma format_2f_tie: "format_2f (const_float64 125 1000) = ''0.12''"
  by (simp add: float_defs decimal.simps digit_char_def)

lemma format_2f_negative_zero: "format_2f (Finite True 0 (- 1074)) = ''-0.00''"
  by (simp add: float_defs decimal.simps digit_char_def)

text \<open>
  Some texts that the scanner refuses or accepts: a comma before the closing brace and
  a number with a leading zero are not JSON; a decoder stops after the first value of
  its stream, where \<^verbatim>\<open>json.Unmarshal\<close> refuses what follows it.
\<close>

lemma scanner_refuses_trailing_comma: "checkValid ''{\"a\": 1,}'' = None"
  by (simp add: scan_defs)

lemma scanner_refuses_leading_zero: "checkValid ''01'' = None"
  by (simp add: scan_defs)

lemma decoder_reads_first_value:
  "readValue scan_begin ''{\"price\": 1} trailing'' = Some (JObject [(''price'', JNumber ''1'')]) \<and>
   checkValid ''{\"price\": 1} trailing'' = None"
  by (simp add: scan_defs)

lemma fetch_writable_indep:
  "fst (fetchGoldPricePerGram (w\<lparr>writable := b\<rparr>)) = fst (fetchGoldPricePerGram w)"
  by (simp add: fetchGoldPricePerGram_def Let_def goldapi_headers_def
      split: http_result.splits prod.splits option.splits)

lemma loadState_writable_indep: "loadState (w\<lparr>writable := b\<rparr>) = loadState w"
  by (simp add: loadState_def ReadFile_def)

lemma loadState_after_write:
  assumes "readable w"
  shows "loadState (w\<lparr>files := (files w)(stateFile \<mapsto> MarshalIndent_State s), trace := t\<rparr>) = s"
  using assms by (simp add: loadState_def ReadFile_def unmarshal_marshal)

section \<open>The claims\<close>

text \<open>
  Claim C1, as amended. In every run in which the derived 22K price is at most the
  target 12700, the loaded state is Idle and the notification server answers the POST
  with status 200, the run sends exactly one notification (after the price request and
  before the write), sets \<^verbatim>\<open>AlertTriggered\<close> and calls \<^verbatim>\<open>os.WriteFile\<close> once on the state
  file with the marshalled state. Provided that this write succeeds, the state file
  holds the Triggered state afterwards, and a load that can read the file returns it.

  The proviso is needed: \<^verbatim>\<open>saveState\<close> discards the error of \<^verbatim>\<open>os.WriteFile\<close>, so in a
  world in which the file cannot be written (\<open>C1_counterexample\<close>) the notification is
  sent, nothing is persisted, and the next run loads the state Idle again.
\<close>

theorem C1_alert_sent_once_and_state_persisted:
  assumes "fst (fetchGoldPricePerGram w) = Inr price24K"
    and "float_le (convertTo22K price24K) target_level"
    and "\<not> AlertTriggered (loadState w)"
    and "pushover w (pushover_form w (alert_message (convertTo22K price24K))) = Response 200 body"
  shows "trace (snd (run w)) = trace w @ run_events w \<and>
         run_events w =
           [EvGet goldapi_url (goldapi_headers w),
            EvPostForm pushover_url (pushover_form w (alert_message (convertTo22K price24K))),
            EvWriteFile stateFile (MarshalIndent_State \<lparr>AlertTriggered = True\<rparr>)] \<and>
         notifications (run_events w) = [alert_message (convertTo22K price24K)] \<and>
         state_writes (run_events w) = [MarshalIndent_State \<lparr>AlertTriggered = True\<rparr>] \<and>
         fst (run w) = \<lparr>AlertTriggered = True\<rparr> \<and>
         (writable w \<longrightarrow>
            files (snd (run w)) stateFile = Some (MarshalIndent_State \<lparr>AlertTriggered = True\<rparr>)) \<and>
         (writable w \<and> readable w \<longrightarrow> loadState (snd (run w)) = \<lparr>AlertTriggered = True\<rparr>)"
proof -
  note r = run_alert_sent [OF assms]
  have ev: "run_events w =
           [EvGet goldapi_url (goldapi_headers w),
            EvPostForm pushover_url (pushover_form w (alert_message (convertTo22K price24K))),
            EvWriteFile stateFile (MarshalIndent_State \<lparr>AlertTriggered = True\<rparr>)]"
    by (rule run_events_eq(1) [OF r])
  have tr: "trace (snd (run w)) = trace w @ run_events w"
    unfolding ev by (rule run_events_eq(2) [OF r])
  have n: "notifications (run_events w) = [alert_message (convertTo22K price24K)]"
    unfolding ev by (simp add: notifications_def form_value_def pushover_form_def)
  have sw: "state_writes (run_events w) = [MarshalIndent_State \<lparr>AlertTriggered = True\<rparr>]"
    unfolding ev by (simp add: state_writes_def)
  have st: "fst (run w) = \<lparr>AlertTriggered = True\<rparr>"
    by (simp add: r)
  have fl: "writable w \<longrightarrow>
      files (snd (run w)) stateFile = Some (MarshalIndent_State \<lparr>AlertTriggered = True\<rparr>)"
    by (simp add: r)
  have ld: "writable w \<and> readable w \<longrightarrow> loadState (snd (run w)) = \<lparr>AlertTriggered = True\<rparr>"
    by (simp add: r loadState_after_write)
  show ?thesis
    by (intro conjI) (rule tr ev n sw st fl ld)+
qed

theorem C1_witness:
  "fst (fetchGoldPricePerGram (example_world ''{\"price\": 387000.0}'' (Response 200 []) None)) =
     Inr (Finite False 6840243058647933 (- 39)) \<and>
   float_le (convertTo22K (Finite False 6840243058647933 (- 39))) target_level \<and>
   \<not> AlertTriggered (loadState (example_world ''{\"price\": 387000.0}'' (Response 200 []) None)) \<and>
   writable (example_world ''{\"price\": 387000.0}'' (Response 200 []) None) \<and>
   readable (example_world ''{\"price\": 387000.0}'' (Response 200 []) None) \<and>
   notifications (run_events (example_world ''{\"price\": 387000.0}'' (Response 200 []) None)) =
     [''22K Gold hit '' @ rupee @ ''11739.09 / gram'' @ [newline] @ ''Target: '' @ rupee @ ''12700.00''] \<and>
   state_writes (run_events (example_world ''{\"price\": 387000.0}'' (Response 200 []) None)) =
     [''{'' @ [newline] @ ''  \"alert_triggered\": true'' @ [newline] @ ''}''] \<and>
   fst (run (example_world ''{\"price\": 387000.0}'' (Response 200 []) None)) = \<lparr>AlertTriggered = True\<rparr> \<and>
   files (snd (run (example_world ''{\"price\": 387000.0}'' (Response 200 []) None))) stateFile =
     Some (''{'' @ [newline] @ ''  \"alert_triggered\": true'' @ [newline] @ ''}'') \<and>
   loadState (snd (run (example_world ''{\"price\": 387000.0}'' (Response 200 []) None))) =
     \<lparr>AlertTriggered = True\<rparr>"
proof -
  let ?w = "example_world ''{\"price\": 387000.0}'' (Response 200 []) None"
  have h1: "fst (fetchGoldPricePerGram ?w) = Inr (Finite False 6840243058647933 (- 39))"
    by (rule fetch_387000)
  have h2: "float_le (convertTo22K (Finite False 6840243058647933 (- 39))) target_level"
    by (simp add: convert_387000 le_target_387000)
  have h3: "\<not> AlertTriggered (loadState ?w)"
    by (simp add: example_load State_zero_def)
  have h4: "pushover ?w (pushover_form ?w (alert_message (convertTo22K (Finite False 6840243058647933 (- 39)))))
      = Response 200 []"
    by (simp add: example_world_def)
  have w: "writable ?w" and rd: "readable ?w"
    by (simp_all add: example_world_def)
  note c = C1_alert_sent_once_and_state_persisted [OF h1 h2 h3 h4]
  note n = c [THEN conjunct2, THEN conjunct2, THEN conjunct1]
  note sw = c [THEN conjunct2, THEN conjunct2, THEN conjunct2, THEN conjunct1]
  note st = c [THEN conjunct2, THEN conjunct2, THEN conjunct2, THEN conjunct2, THEN conjunct1]
  note fl = c [THEN conjunct2, THEN conjunct2, THEN conjunct2, THEN conjunct2, THEN conjunct2,
      THEN conjunct1]
  note ld = c [THEN conjunct2, THEN conjunct2, THEN conjunct2, THEN conjunct2, THEN conjunct2,
      THEN conjunct2]
  from n have c3: "notifications (run_events ?w) =
      [''22K Gold hit '' @ rupee @ ''11739.09 / gram'' @ [newline] @ ''Target: '' @ rupee @ ''12700.00'']"
    by (simp only: convert_387000 message_387000)
  from sw have c4: "state_writes (run_events ?w) =
      [''{'' @ [newline] @ ''  \"alert_triggered\": true'' @ [newline] @ ''}'']"
    by (simp add: MarshalIndent_State_def dquote_def)
  from fl w have c6: "files (snd (run ?w)) stateFile =
      Some (''{'' @ [newline] @ ''  \"alert_triggered\": true'' @ [newline] @ ''}'')"
    by (simp add: MarshalIndent_State_def dquote_def)
  from ld w rd have c7: "loadState (snd (run ?w)) = \<lparr>AlertTriggered = True\<rparr>"
    by blast
  show ?thesis
    by (intro conjI) (rule h1 h2 h3 w rd c3 c4 st c6 c7)+
qed

theorem C1_counterexample:
  "fst (fetchGoldPricePerGram
      ((example_world ''{\"price\": 387000.0}'' (Response 200 []) None)\<lparr>writable := False\<rparr>)) =
     Inr (Finite False 6840243058647933 (- 39)) \<and>
   float_le (convertTo22K (Finite False 6840243058647933 (- 39))) target_level \<and>
   \<not> AlertTriggered (loadState
      ((example_world ''{\"price\": 387000.0}'' (Response 200 []) None)\<lparr>writable := False\<rparr>)) \<and>
   pushover ((example_world ''{\"price\": 387000.0}'' (Response 200 []) None)\<lparr>writable := False\<rparr>)
     (pushover_form ((example_world ''{\"price\": 387000.0}'' (Response 200 []) None)\<lparr>writable := False\<rparr>)
        (alert_message (convertTo22K (Finite False 6840243058647933 (- 39))))) = Response 200 [] \<and>
   length (notifications (run_events
      ((example_world ''{\"price\": 387000.0}'' (Response 200 []) None)\<lparr>writable := False\<rparr>))) = 1 \<and>
   files (snd (run
      ((example_world ''{\"price\": 387000.0}'' (Response 200 []) None)\<lparr>writable := False\<rparr>))) stateFile = None \<and>
   \<not> AlertTriggered (loadState (snd (run
      ((example_world ''{\"price\": 387000.0}'' (Response 200 []) None)\<lparr>writable := False\<rparr>))))"
proof -
  let ?w = "(example_world ''{\"price\": 387000.0}'' (Response 200 []) None)\<lparr>writable := False\<rparr>"
  have h1: "fst (fetchGoldPricePerGram ?w) = Inr (Finite False 6840243058647933 (- 39))"
    by (simp only: fetch_writable_indep fetch_387000)
  have h2: "float_le (convertTo22K (Finite False 6840243058647933 (- 39))) target_level"
    by (simp add: convert_387000 le_target_387000)
  have h3: "\<not> AlertTriggered (loadState ?w)"
    by (simp add: loadState_writable_indep example_load State_zero_def)
  have h4: "pushover ?w (pushover_form ?w (alert_message (convertTo22K (Finite False 6840243058647933 (- 39)))))
      = Response 200 []"
    by (simp add: example_world_def)
  have nw: "\<not> writable ?w"
    by simp
  note r = run_alert_sent [OF h1 h2 h3 h4]
  have n: "length (notifications (run_events ?w)) = 1"
    unfolding run_events_eq(1) [OF r]
    by (simp add: notifications_def)
  have fs: "files (snd (run ?w)) = files ?w"
    using nw by (simp add: r)
  have f: "files (snd (run ?w)) stateFile = None"
    unfolding fs by (simp add: example_world_def)
  have "loadState (snd (run ?w)) = loadState ?w"
    using fs by (simp add: r loadState_def ReadFile_def)
  with h3 have l: "\<not> AlertTriggered (loadState (snd (run ?w)))"
    by simp
  show ?thesis
    by (intro conjI) (rule h1 h2 h3 h4 n f l)+
qed

text \<open>
  Claim C2. In every run in which the derived 22K price is at most the target 12700,
  the loaded state is Idle and \<^verbatim>\<open>sendPushover\<close> returns an error (the server cannot be
  reached, or it answers with a status other than 200), the run returns right after
  the POST: the variable \<^verbatim>\<open>state\<close> is the loaded one, with \<^verbatim>\<open>AlertTriggered\<close> false,
  \<^verbatim>\<open>os.WriteFile\<close> is not called, the files are as they were, and the next run loads
  the state Idle again.
\<close>

theorem C2_failed_send_keeps_state:
  assumes "fst (fetchGoldPricePerGram w) = Inr price24K"
    and "float_le (convertTo22K price24K) target_level"
    and "\<not> AlertTriggered (loadState w)"
    and "fst (sendPushover (alert_message (convertTo22K price24K)) w) = Some err"
  shows "trace (snd (run w)) = trace w @ run_events w \<and>
         run_events w =
           [EvGet goldapi_url (goldapi_headers w),
            EvPostForm pushover_url (pushover_form w (alert_message (convertTo22K price24K)))] \<and>
         state_writes (run_events w) = [] \<and>
         fst (run w) = loadState w \<and>
         \<not> AlertTriggered (fst (run w)) \<and>
         files (snd (run w)) = files w \<and>
         \<not> AlertTriggered (loadState (snd (run w)))"
proof -
  note r = run_alert_failed [OF assms]
  have ev: "run_events w =
           [EvGet goldapi_url (goldapi_headers w),
            EvPostForm pushover_url (pushover_form w (alert_message (convertTo22K price24K)))]"
    by (rule run_events_eq'(1) [OF r])
  have tr: "trace (snd (run w)) = trace w @ run_events w"
    unfolding ev by (rule run_events_eq'(2) [OF r])
  have sw: "state_writes (run_events w) = []"
    unfolding ev by (simp add: state_writes_def)
  have st: "fst (run w) = loadState w"
    by (simp add: r)
  have fl: "files (snd (run w)) = files w"
    by (simp add: r)
  have ld: "loadState (snd (run w)) = loadState w"
    by (simp add: r loadState_def ReadFile_def)
  from tr ev sw st fl ld assms(3) show ?thesis by simp
qed

theorem C2_witness:
  "fst (fetchGoldPricePerGram (example_world ''{\"price\": 387000.0}'' (Response 500 []) None)) =
     Inr (Finite False 6840243058647933 (- 39)) \<and>
   float_le (convertTo22K (Finite False 6840243058647933 (- 39))) target_level \<and>
   \<not> AlertTriggered (loadState (example_world ''{\"price\": 387000.0}'' (Response 500 []) None)) \<and>
   fst (sendPushover (alert_message (convertTo22K (Finite False 6840243058647933 (- 39))))
          (example_world ''{\"price\": 387000.0}'' (Response 500 []) None)) =
     Some (PushoverReturned 500) \<and>
   state_writes (run_events (example_world ''{\"price\": 387000.0}'' (Response 500 []) None)) = [] \<and>
   \<not> AlertTriggered (fst (run (example_world ''{\"price\": 387000.0}'' (Response 500 []) None))) \<and>
   files (snd (run (example_world ''{\"price\": 387000.0}'' (Response 500 []) None))) stateFile = None"
proof -
  let ?w = "example_world ''{\"price\": 387000.0}'' (Response 500 []) None"
  have h1: "fst (fetchGoldPricePerGram ?w) = Inr (Finite False 6840243058647933 (- 39))"
    by (rule fetch_387000)
  have h2: "float_le (convertTo22K (Finite False 6840243058647933 (- 39))) target_level"
    by (simp add: convert_387000 le_target_387000)
  have h3: "\<not> AlertTriggered (loadState ?w)"
    by (simp add: example_load State_zero_def)
  have h4: "fst (sendPushover (alert_message (convertTo22K (Finite False 6840243058647933 (- 39)))) ?w) =
      Some (PushoverReturned 500)"
    by (rule sendPushover_fails_500)
  note c = C2_failed_send_keeps_state [OF h1 h2 h3 h4]
  note sw = c [THEN conjunct2, THEN conjunct2, THEN conjunct1]
  note st = c [THEN conjunct2, THEN conjunct2, THEN conjunct2, THEN conjunct2, THEN conjunct1]
  note fl = c [THEN conjunct2, THEN conjunct2, THEN conjunct2, THEN conjunct2, THEN conjunct2, THEN conjunct1]
  from fl have c6: "files (snd (run ?w)) stateFile = None"
    by (simp add: example_world_def)
  show ?thesis
    by (intro conjI) (rule h1 h2 h3 h4 sw st c6)+
qed

text \<open>
  Claim C3. In every run that has fetched a price and in which neither guard holds,
  the run does nothing more than the price request: no notification, no write, the
  variable \<^verbatim>\<open>state\<close> and the files as they were. In particular this is so when the
  derived 22K price is above 12700 and at most 12900, whatever the loaded state, and
  when it is at most 12700 and the loaded state is Triggered.
\<close>

theorem C3_no_transition_no_effect:
  assumes "fst (fetchGoldPricePerGram w) = Inr price24K"
    and "(\<not> alert_condition (convertTo22K price24K) (loadState w) \<and>
          \<not> reset_condition (convertTo22K price24K) (loadState w)) \<or>
         (float_gt (convertTo22K price24K) target_level \<and>
          float_le (convertTo22K price24K) reset_level) \<or>
         (float_le (convertTo22K price24K) target_level \<and> AlertTriggered (loadState w))"
  shows "trace (snd (run w)) = trace w @ run_events w \<and>
         run_events w = [EvGet goldapi_url (goldapi_headers w)] \<and>
         notifications (run_events w) = [] \<and>
         state_writes (run_events w) = [] \<and>
         fst (run w) = loadState w \<and>
         files (snd (run w)) = files w"
proof -
  from assms(2)
  have no: "\<not> alert_condition (convertTo22K price24K) (loadState w) \<and>
            \<not> reset_condition (convertTo22K price24K) (loadState w)"
    using gt_target_not_le [of "convertTo22K price24K"]
      le_reset_not_gt [of "convertTo22K price24K"]
      le_target_not_gt_reset [of "convertTo22K price24K"]
    by (auto simp add: alert_condition_def reset_condition_def)
  note r = run_no_transition [OF assms(1) no [THEN conjunct1] no [THEN conjunct2]]
  have ev: "run_events w = [EvGet goldapi_url (goldapi_headers w)]"
    by (rule run_events_eq'(1) [OF r])
  have tr: "trace (snd (run w)) = trace w @ run_events w"
    unfolding ev by (rule run_events_eq'(2) [OF r])
  have n: "notifications (run_events w) = []"
    unfolding ev by (simp add: notifications_def)
  have sw: "state_writes (run_events w) = []"
    unfolding ev by (simp add: state_writes_def)
  have st: "fst (run w) = loadState w"
    by (simp add: r)
  have fl: "files (snd (run w)) = files w"
    by (simp add: r)
  from tr ev n sw st fl show ?thesis by blast
qed

theorem C3_witness:
  "fst (fetchGoldPricePerGram
      (example_world ''{\"price\": 422000}'' (Response 200 []) (Some (MarshalIndent_State \<lparr>AlertTriggered = True\<rparr>)))) =
     Inr (Finite False 7458869691858987 (- 39)) \<and>
   float_gt (convertTo22K (Finite False 7458869691858987 (- 39))) target_level \<and>
   float_le (convertTo22K (Finite False 7458869691858987 (- 39))) reset_level \<and>
   notifications (run_events
      (example_world ''{\"price\": 422000}'' (Response 200 []) (Some (MarshalIndent_State \<lparr>AlertTriggered = True\<rparr>)))) = [] \<and>
   state_writes (run_events
      (example_world ''{\"price\": 422000}'' (Response 200 []) (Some (MarshalIndent_State \<lparr>AlertTriggered = True\<rparr>)))) = [] \<and>
   fst (run
      (example_world ''{\"price\": 422000}'' (Response 200 []) (Some (MarshalIndent_State \<lparr>AlertTriggered = True\<rparr>)))) =
     \<lparr>AlertTriggered = True\<rparr> \<and>
   files (snd (run
      (example_world ''{\"price\": 422000}'' (Response 200 []) (Some (MarshalIndent_State \<lparr>AlertTriggered = True\<rparr>)))))
      stateFile =
     Some (''{'' @ [newline] @ ''  \"alert_triggered\": true'' @ [newline] @ ''}'')"
proof -
  let ?w = "example_world ''{\"price\": 422000}'' (Response 200 [])
              (Some (MarshalIndent_State \<lparr>AlertTriggered = True\<rparr>))"
  have h1: "fst (fetchGoldPricePerGram ?w) = Inr (Finite False 7458869691858987 (- 39))"
    by (rule fetch_422000)
  have h2: "float_gt (convertTo22K (Finite False 7458869691858987 (- 39))) target_level"
    by (simp add: convert_422000 dead_zone_422000)
  have h3: "float_le (convertTo22K (Finite False 7458869691858987 (- 39))) reset_level"
    by (simp add: convert_422000 dead_zone_422000)
  have ld: "loadState ?w = \<lparr>AlertTriggered = True\<rparr>"
    by (rule example_load_saved)
  from h2 h3 have h: "(\<not> alert_condition (convertTo22K (Finite False 7458869691858987 (- 39))) (loadState ?w) \<and>
          \<not> reset_condition (convertTo22K (Finite False 7458869691858987 (- 39))) (loadState ?w)) \<or>
         (float_gt (convertTo22K (Finite False 7458869691858987 (- 39))) target_level \<and>
          float_le (convertTo22K (Finite False 7458869691858987 (- 39))) reset_level) \<or>
         (float_le (convertTo22K (Finite False 7458869691858987 (- 39))) target_level \<and>
          AlertTriggered (loadState ?w))"
    by blast
  note c = C3_no_transition_no_effect [OF h1 h]
  note n = c [THEN conjunct2, THEN conjunct2, THEN conjunct1]
  note sw = c [THEN conjunct2, THEN conjunct2, THEN conjunct2, THEN conjunct1]
  note st = c [THEN conjunct2, THEN conjunct2, THEN conjunct2, THEN conjunct2, THEN conjunct1]
  note fl = c [THEN conjunct2, THEN conjunct2, THEN conjunct2, THEN conjunct2, THEN conjunct2]
  from st ld have c5: "fst (run ?w) = \<lparr>AlertTriggered = True\<rparr>"
    by simp
  from fl have c6: "files (snd (run ?w)) stateFile =
      Some (''{'' @ [newline] @ ''  \"alert_triggered\": true'' @ [newline] @ ''}'')"
    by (simp add: example_world_def MarshalIndent_State_def dquote_def)
  show ?thesis
    by (intro conjI) (rule h1 h2 h3 n sw c5 c6)+
qed

text \<open>
  Claim C4, as amended. In every run in which the derived 22K price is above 12900, the
  target plus the reset buffer, and the loaded state is Triggered, the run sends no
  notification, clears \<^verbatim>\<open>AlertTriggered\<close> and calls \<^verbatim>\<open>os.WriteFile\<close> once on the state
  file with the marshalled state. Provided that this write succeeds, the state file
  holds the Idle state afterwards, and a load that can read the file returns it.

  The proviso is needed: \<^verbatim>\<open>saveState\<close> discards the error of \<^verbatim>\<open>os.WriteFile\<close>, so in a
  world in which the file cannot be written (\<open>C4_counterexample\<close>) the file still
  holds the Triggered state and the next run loads it.
\<close>

theorem C4_reset_without_notification:
  assumes "fst (fetchGoldPricePerGram w) = Inr price24K"
    and "float_gt (convertTo22K price24K) reset_level"
    and "AlertTriggered (loadState w)"
  shows "trace (snd (run w)) = trace w @ run_events w \<and>
         run_events w =
           [EvGet goldapi_url (goldapi_headers w),
            EvWriteFile stateFile (MarshalIndent_State \<lparr>AlertTriggered = False\<rparr>)] \<and>
         notifications (run_events w) = [] \<and>
         state_writes (run_events w) = [MarshalIndent_State \<lparr>AlertTriggered = False\<rparr>] \<and>
         fst (run w) = \<lparr>AlertTriggered = False\<rparr> \<and>
         (writable w \<longrightarrow>
            files (snd (run w)) stateFile = Some (MarshalIndent_State \<lparr>AlertTriggered = False\<rparr>)) \<and>
         (writable w \<and> readable w \<longrightarrow> loadState (snd (run w)) = \<lparr>AlertTriggered = False\<rparr>)"
proof -
  note r = run_reset [OF assms]
  have ev: "run_events w =
           [EvGet goldapi_url (goldapi_headers w),
            EvWriteFile stateFile (MarshalIndent_State \<lparr>AlertTriggered = False\<rparr>)]"
    by (rule run_events_eq(1) [OF r])
  have tr: "trace (snd (run w)) = trace w @ run_events w"
    unfolding ev by (rule run_events_eq(2) [OF r])
  have n: "notifications (run_events w) = []"
    unfolding ev by (simp add: notifications_def)
  have sw: "state_writes (run_events w) = [MarshalIndent_State \<lparr>AlertTriggered = False\<rparr>]"
    unfolding ev by (simp add: state_writes_def)
  have st: "fst (run w) = \<lparr>AlertTriggered = False\<rparr>"
    by (simp add: r)
  have fl: "writable w \<longrightarrow>
      files (snd (run w)) stateFile = Some (MarshalIndent_State \<lparr>AlertTriggered = False\<rparr>)"
    by (simp add: r)
  have ld: "writable w \<and> readable w \<longrightarrow> loadState (snd (run w)) = \<lparr>AlertTriggered = False\<rparr>"
    by (simp add: r loadState_after_write)
  show ?thesis
    by (intro conjI) (rule tr ev n sw st fl ld)+
qed

theorem C4_witness:
  "fst (fetchGoldPricePerGram
      (example_world ''{\"price\": 430000}'' (Response 200 []) (Some (MarshalIndent_State \<lparr>AlertTriggered = True\<rparr>)))) =
     Inr (Finite False 7600270065164370 (- 39)) \<and>
   float_gt (convertTo22K (Finite False 7600270065164370 (- 39))) reset_level \<and>
   AlertTriggered (loadState
      (example_world ''{\"price\": 430000}'' (Response 200 []) (Some (MarshalIndent_State \<lparr>AlertTriggered = True\<rparr>)))) \<and>
   writable
      (example_world ''{\"price\": 430000}'' (Response 200 []) (Some (MarshalIndent_State \<lparr>AlertTriggered = True\<rparr>))) \<and>
   readable
      (example_world ''{\"price\": 430000}'' (Response 200 []) (Some (MarshalIndent_State \<lparr>AlertTriggered = True\<rparr>))) \<and>
   notifications (run_events
      (example_world ''{\"price\": 430000}'' (Response 200 []) (Some (MarshalIndent_State \<lparr>AlertTriggered = True\<rparr>)))) = [] \<and>
   fst (run
      (example_world ''{\"price\": 430000}'' (Response 200 []) (Some (MarshalIndent_State \<lparr>AlertTriggered = True\<rparr>)))) =
     \<lparr>AlertTriggered = False\<rparr> \<and>
   files (snd (run
      (example_world ''{\"price\": 430000}'' (Response 200 []) (Some (MarshalIndent_State \<lparr>AlertTriggered = True\<rparr>)))))
      stateFile =
     Some (''{'' @ [newline] @ ''  \"alert_triggered\": false'' @ [newline] @ ''}'') \<and>
   loadState (snd (run
      (example_world ''{\"price\": 430000}'' (Response 200 []) (Some (MarshalIndent_State \<lparr>AlertTriggered = True\<rparr>))))) =
     \<lparr>AlertTriggered = False\<rparr>"
proof -
  let ?w = "example_world ''{\"price\": 430000}'' (Response 200 [])
              (Some (MarshalIndent_State \<lparr>AlertTriggered = True\<rparr>))"
  have h1: "fst (fetchGoldPricePerGram ?w) = Inr (Finite False 7600270065164370 (- 39))"
    by (rule fetch_430000)
  have h2: "float_gt (convertTo22K (Finite False 7600270065164370 (- 39))) reset_level"
    by (simp add: convert_430000 gt_reset_430000)
  have h3: "AlertTriggered (loadState ?w)"
    by (simp add: example_load_saved)
  have w: "writable ?w" and rd: "readable ?w"
    by (simp_all add: example_world_def)
  note c = C4_reset_without_notification [OF h1 h2 h3]
  note n = c [THEN conjunct2, THEN conjunct2, THEN conjunct1]
  note st = c [THEN conjunct2, THEN conjunct2, THEN conjunct2, THEN conjunct2, THEN conjunct1]
  note fl = c [THEN conjunct2, THEN conjunct2, THEN conjunct2, THEN conjunct2, THEN conjunct2,
      THEN conjunct1]
  note ld = c [THEN conjunct2, THEN conjunct2, THEN conjunct2, THEN conjunct2, THEN conjunct2,
      THEN conjunct2]
  from fl w have c6: "files (snd (run ?w)) stateFile =
      Some (''{'' @ [newline] @ ''  \"alert_triggered\": false'' @ [newline] @ ''}'')"
    by (simp add: MarshalIndent_State_def dquote_def)
  from ld w rd have c7: "loadState (snd (run ?w)) = \<lparr>AlertTriggered = False\<rparr>"
    by blast
  show ?thesis
    by (intro conjI) (rule h1 h2 h3 w rd n st c6 c7)+
qed

theorem C4_counterexample:
  "fst (fetchGoldPricePerGram
      ((example_world ''{\"price\": 430000}'' (Response 200 [])
          (Some (MarshalIndent_State \<lparr>AlertTriggered = True\<rparr>)))\<lparr>writable := False\<rparr>)) =
     Inr (Finite False 7600270065164370 (- 39)) \<and>
   float_gt (convertTo22K (Finite False 7600270065164370 (- 39))) reset_level \<and>
   AlertTriggered (loadState
      ((example_world ''{\"price\": 430000}'' (Response 200 [])
          (Some (MarshalIndent_State \<lparr>AlertTriggered = True\<rparr>)))\<lparr>writable := False\<rparr>)) \<and>
   fst (run
      ((example_world ''{\"price\": 430000}'' (Response 200 [])
          (Some (MarshalIndent_State \<lparr>AlertTriggered = True\<rparr>)))\<lparr>writable := False\<rparr>)) =
     \<lparr>AlertTriggered = False\<rparr> \<and>
   files (snd (run
      ((example_world ''{\"price\": 430000}'' (Response 200 [])
          (Some (MarshalIndent_State \<lparr>AlertTriggered = True\<rparr>)))\<lparr>writable := False\<rparr>))) stateFile =
     Some (''{'' @ [newline] @ ''  \"alert_triggered\": true'' @ [newline] @ ''}'') \<and>
   AlertTriggered (loadState (snd (run
      ((example_world ''{\"price\": 430000}'' (Response 200 [])
          (Some (MarshalIndent_State \<lparr>AlertTriggered = True\<rparr>)))\<lparr>writable := False\<rparr>))))"
proof -
  let ?w = "(example_world ''{\"price\": 430000}'' (Response 200 [])
              (Some (MarshalIndent_State \<lparr>AlertTriggered = True\<rparr>)))\<lparr>writable := False\<rparr>"
  have h1: "fst (fetchGoldPricePerGram ?w) = Inr (Finite False 7600270065164370 (- 39))"
    by (simp only: fetch_writable_indep fetch_430000)
  have h2: "float_gt (convertTo22K (Finite False 7600270065164370 (- 39))) reset_level"
    by (simp add: convert_430000 gt_reset_430000)
  have h3: "AlertTriggered (loadState ?w)"
    by (simp add: loadState_writable_indep example_load_saved)
  have nw: "\<not> writable ?w"
    by simp
  note r = run_reset [OF h1 h2 h3]
  have st: "fst (run ?w) = \<lparr>AlertTriggered = False\<rparr>"
    by (simp add: r)
  have fs: "files (snd (run ?w)) = files ?w"
    using nw by (simp add: r)
  have f: "files (snd (run ?w)) stateFile =
      Some (''{'' @ [newline] @ ''  \"alert_triggered\": true'' @ [newline] @ ''}'')"
    unfolding fs by (simp add: example_world_def MarshalIndent_State_def dquote_def)
  have "loadState (snd (run ?w)) = loadState ?w"
    using fs by (simp add: r loadState_def ReadFile_def)
  with h3 have l: "AlertTriggered (loadState (snd (run ?w)))"
    by simp
  show ?thesis
    by (intro conjI) (rule h1 h2 h3 st f l)+
qed



text \<open>
  Claim C6, as amended. In every run in which the price server answers with status 200
  and the body \<^verbatim>\<open>{"price": 387000.0}\<close>, the loaded state is Idle and the notification
  server accepts the POST of the run, the price per gram is 12442.33 and the derived 22K
  price is 11739.09 (to two decimals), which is at most 12700; exactly one notification
  is sent, its message contains \<^verbatim>\<open>11739.09\<close>, the flag is set and \<^verbatim>\<open>os.WriteFile\<close> is
  called once with the Triggered state. Provided that this write succeeds, the state
  file holds the Triggered state afterwards, and a load that can read the file returns
  it.

  The message does not contain \<^verbatim>\<open>11736.50\<close>, the figure of the claim as stated
  (\<open>C6_counterexample\<close>): 387000 / 31.1035 is 12442.33, not 12441.46.
\<close>

theorem C6_scenario_387000:
  assumes "goldapi w (goldapi_headers w) = Response 200 ''{\"price\": 387000.0}''"
    and "\<not> AlertTriggered (loadState w)"
    and "\<forall>price24K. fst (fetchGoldPricePerGram w) = Inr price24K \<longrightarrow>
           fst (sendPushover (alert_message (convertTo22K price24K)) w) = None"
  shows "fst (fetchGoldPricePerGram w) = Inr (Finite False 6840243058647933 (- 39)) \<and>
         convertTo22K (Finite False 6840243058647933 (- 39)) = Finite False 6453632520973152 (- 39) \<and>
         float_le (Finite False 6453632520973152 (- 39)) target_level \<and>
         format_2f (Finite False 6453632520973152 (- 39)) = ''11739.09'' \<and>
         notifications (run_events w) =
           [''22K Gold hit '' @ rupee @ ''11739.09 / gram'' @ [newline] @ ''Target: '' @ rupee @ ''12700.00''] \<and>
         Contains (''22K Gold hit '' @ rupee @ ''11739.09 / gram'' @ [newline] @ ''Target: '' @ rupee @ ''12700.00'')
           ''11739.09'' \<and>
         state_writes (run_events w) = [MarshalIndent_State \<lparr>AlertTriggered = True\<rparr>] \<and>
         fst (run w) = \<lparr>AlertTriggered = True\<rparr> \<and>
         (writable w \<longrightarrow>
            files (snd (run w)) stateFile = Some (MarshalIndent_State \<lparr>AlertTriggered = True\<rparr>)) \<and>
         (writable w \<and> readable w \<longrightarrow> loadState (snd (run w)) = \<lparr>AlertTriggered = True\<rparr>)"
proof -
  let ?p = "Finite False 6840243058647933 (- 39)"
  have f: "fst (fetchGoldPricePerGram w) = Inr ?p"
    using fetch_of_body [OF assms(1) decode_price_object [OF body_387000 parse_387000]]
    by (simp add: per_gram_387000)
  have le: "float_le (convertTo22K ?p) target_level"
    by (simp add: convert_387000 le_target_387000)
  from assms(3) f have "fst (sendPushover (alert_message (convertTo22K ?p)) w) = None"
    by blast
  from sendPushover_ok [OF this] obtain body
    where ok: "pushover w (pushover_form w (alert_message (convertTo22K ?p))) = Response 200 body" ..
  note r = run_alert_sent [OF f le assms(2) ok]
  have n: "notifications (run_events w) = [alert_message (convertTo22K ?p)]"
    unfolding run_events_eq(1) [OF r]
    by (simp add: notifications_def form_value_def pushover_form_def)
  then have n': "notifications (run_events w) =
      [''22K Gold hit '' @ rupee @ ''11739.09 / gram'' @ [newline] @ ''Target: '' @ rupee @ ''12700.00'']"
    by (simp only: convert_387000 message_387000)
  have sw: "state_writes (run_events w) = [MarshalIndent_State \<lparr>AlertTriggered = True\<rparr>]"
    unfolding run_events_eq(1) [OF r] by (simp add: state_writes_def)
  have st: "fst (run w) = \<lparr>AlertTriggered = True\<rparr>"
    by (simp add: r)
  have fl: "writable w \<longrightarrow>
      files (snd (run w)) stateFile = Some (MarshalIndent_State \<lparr>AlertTriggered = True\<rparr>)"
    by (simp add: r)
  have ld: "writable w \<and> readable w \<longrightarrow> loadState (snd (run w)) = \<lparr>AlertTriggered = True\<rparr>"
    by (simp add: r loadState_after_write)
  show ?thesis
    by (intro conjI)
      (rule f convert_387000 le_target_387000 format_387000 n' message_contains_11739 sw st fl ld)+
qed

theorem C6_witness:
  "goldapi (example_world ''{\"price\": 387000.0}'' (Response 200 []) None)
     (goldapi_headers (example_world ''{\"price\": 387000.0}'' (Response 200 []) None)) =
     Response 200 ''{\"price\": 387000.0}'' \<and>
   \<not> AlertTriggered (loadState (example_world ''{\"price\": 387000.0}'' (Response 200 []) None)) \<and>
   fst (fetchGoldPricePerGram (example_world ''{\"price\": 387000.0}'' (Response 200 []) None)) =
     Inr (Finite False 6840243058647933 (- 39)) \<and>
   fst (sendPushover (alert_message (convertTo22K (Finite False 6840243058647933 (- 39))))
          (example_world ''{\"price\": 387000.0}'' (Response 200 []) None)) = None \<and>
   writable (example_world ''{\"price\": 387000.0}'' (Response 200 []) None) \<and>
   readable (example_world ''{\"price\": 387000.0}'' (Response 200 []) None) \<and>
   notifications (run_events (example_world ''{\"price\": 387000.0}'' (Response 200 []) None)) =
     [''22K Gold hit '' @ rupee @ ''11739.09 / gram'' @ [newline] @ ''Target: '' @ rupee @ ''12700.00''] \<and>
   fst (run (example_world ''{\"price\": 387000.0}'' (Response 200 []) None)) = \<lparr>AlertTriggered = True\<rparr> \<and>
   files (snd (run (example_world ''{\"price\": 387000.0}'' (Response 200 []) None))) stateFile =
     Some (''{'' @ [newline] @ ''  \"alert_triggered\": true'' @ [newline] @ ''}'') \<and>
   loadState (snd (run (example_world ''{\"price\": 387000.0}'' (Response 200 []) None))) =
     \<lparr>AlertTriggered = True\<rparr>"
proof -
  let ?w = "example_world ''{\"price\": 387000.0}'' (Response 200 []) None"
  have h1: "goldapi ?w (goldapi_headers ?w) = Response 200 ''{\"price\": 387000.0}''"
    by (simp add: example_world_def)
  have h2: "\<not> AlertTriggered (loadState ?w)"
    by (simp add: example_load State_zero_def)
  have h3: "\<forall>price24K. fst (fetchGoldPricePerGram ?w) = Inr price24K \<longrightarrow>
           fst (sendPushover (alert_message (convertTo22K price24K)) ?w) = None"
    by (simp add: sendPushover_example_ok)
  have w: "writable ?w" and rd: "readable ?w"
    by (simp_all add: example_world_def)
  note c = C6_scenario_387000 [OF h1 h2 h3]
  note n = c [THEN conjunct2, THEN conjunct2, THEN conjunct2, THEN conjunct2, THEN conjunct1]
  note st = c [THEN conjunct2, THEN conjunct2, THEN conjunct2, THEN conjunct2, THEN conjunct2,
      THEN conjunct2, THEN conjunct2, THEN conjunct1]
  note fl = c [THEN conjunct2, THEN conjunct2, THEN conjunct2, THEN conjunct2, THEN conjunct2,
      THEN conjunct2, THEN conjunct2, THEN conjunct2, THEN conjunct1]
  note ld = c [THEN conjunct2, THEN conjunct2, THEN conjunct2, THEN conjunct2, THEN conjunct2,
      THEN conjunct2, THEN conjunct2, THEN conjunct2, THEN conjunct2]
  from fl w have f: "files (snd (run ?w)) stateFile =
      Some (''{'' @ [newline] @ ''  \"alert_triggered\": true'' @ [newline] @ ''}'')"
    by (simp add: MarshalIndent_State_def dquote_def)
  from ld w rd have l: "loadState (snd (run ?w)) = \<lparr>AlertTriggered = True\<rparr>"
    by blast
  show ?thesis
    by (intro conjI) (rule h1 h2 fetch_387000 sendPushover_example_ok w rd n st f l)+
qed

theorem C6_counterexample:
  "goldapi (example_world ''{\"price\": 387000.0}'' (Response 200 []) None)
     (goldapi_headers (example_world ''{\"price\": 387000.0}'' (Response 200 []) None)) =
     Response 200 ''{\"price\": 387000.0}'' \<and>
   \<not> AlertTriggered (loadState (example_world ''{\"price\": 387000.0}'' (Response 200 []) None)) \<and>
   notifications (run_events (example_world ''{\"price\": 387000.0}'' (Response 200 []) None)) =
     [''22K Gold hit '' @ rupee @ ''11739.09 / gram'' @ [newline] @ ''Target: '' @ rupee @ ''12700.00''] \<and>
   \<not> Contains (''22K Gold hit '' @ rupee @ ''11739.09 / gram'' @ [newline] @ ''Target: '' @ rupee @ ''12700.00'')
       ''11736.50''"
proof -
  let ?w = "example_world ''{\"price\": 387000.0}'' (Response 200 []) None"
  have h1: "goldapi ?w (goldapi_headers ?w) = Response 200 ''{\"price\": 387000.0}''"
    by (simp add: example_world_def)
  have h2: "\<not> AlertTriggered (loadState ?w)"
    by (simp add: example_load State_zero_def)
  show ?thesis
    by (intro conjI) (rule h1 h2 notifications_example_alert message_lacks_11736)+
qed

text \<open>
  Claim C7, as amended. \<^verbatim>\<open>loadState\<close> is a total function that returns a \<^verbatim>\<open>State\<close> and
  no error. It returns the zero state, \<^verbatim>\<open>AlertTriggered\<close> false, when the state file cannot
  be read, when its content is not a JSON text, and when \<^verbatim>\<open>json.Unmarshal\<close> reports a
  type error on it while no member of the top-level object whose key selects the
  field holds \<^verbatim>\<open>true\<close>.

  The condition on the members is needed. \<^verbatim>\<open>json.Unmarshal\<close> stores the members in their
  order and keeps what it has stored when a later member is a type error, and
  \<^verbatim>\<open>loadState\<close> discards the error: on the text of \<open>C7_counterexample\<close>, in which the
  key occurs twice, the error is reported and the state loaded is Triggered.
\<close>

theorem C7_load_default_on_failure:
  assumes "ReadFile w stateFile = None \<or>
           (\<exists>data. ReadFile w stateFile = Some data \<and>
              fst (Unmarshal_State data State_zero) \<noteq> None \<and>
              (\<forall>v. checkValid data = Some v \<longrightarrow> \<not> stores_true v))"
  shows "loadState w = State_zero"
  using assms
proof
  assume "ReadFile w stateFile = None"
  then show ?thesis by (simp add: loadState_def)
next
  assume "\<exists>data. ReadFile w stateFile = Some data \<and>
              fst (Unmarshal_State data State_zero) \<noteq> None \<and>
              (\<forall>v. checkValid data = Some v \<longrightarrow> \<not> stores_true v)"
  then obtain data where r: "ReadFile w stateFile = Some data"
    and v: "\<forall>v. checkValid data = Some v \<longrightarrow> \<not> stores_true v"
    by blast
  show ?thesis
  proof (cases "checkValid data")
    case None
    with r show ?thesis by (simp add: loadState_def Unmarshal_State_def)
  next
    case (Some x)
    with v have "\<not> stores_true x" by simp
    from decode_State_not_true [OF this] r Some show ?thesis
      by (simp add: loadState_def Unmarshal_State_def)
  qed
qed

theorem C7_witness:
  "ReadFile (example_world [] (Response 200 []) (Some ''{\"alert_triggered\": \"yes\"}'')) stateFile =
     Some ''{\"alert_triggered\": \"yes\"}'' \<and>
   fst (Unmarshal_State ''{\"alert_triggered\": \"yes\"}'' State_zero) = Some UnmarshalTypeError \<and>
   checkValid ''{\"alert_triggered\": \"yes\"}'' = Some (JObject [(''alert_triggered'', JString ''yes'')]) \<and>
   \<not> stores_true (JObject [(''alert_triggered'', JString ''yes'')]) \<and>
   loadState (example_world [] (Response 200 []) (Some ''{\"alert_triggered\": \"yes\"}'')) =
     \<lparr>AlertTriggered = False\<rparr>"
proof -
  let ?d = "''{\"alert_triggered\": \"yes\"}''"
  let ?w = "example_world [] (Response 200 []) (Some ?d)"
  have r: "ReadFile ?w stateFile = Some ?d"
    by (rule example_read)
  have e: "fst (Unmarshal_State ?d State_zero) = Some UnmarshalTypeError"
    by (simp add: Unmarshal_State_def valid_string_yes decode_State_def match_field_def saveError_def)
  have n: "\<not> stores_true (JObject [(''alert_triggered'', JString ''yes'')])"
    by (simp add: stores_true_def top_members_def)
  from r e n have "ReadFile ?w stateFile = None \<or>
           (\<exists>data. ReadFile ?w stateFile = Some data \<and>
              fst (Unmarshal_State data State_zero) \<noteq> None \<and>
              (\<forall>v. checkValid data = Some v \<longrightarrow> \<not> stores_true v))"
    by (simp add: valid_string_yes)
  from C7_load_default_on_failure [OF this]
  have l: "loadState ?w = \<lparr>AlertTriggered = False\<rparr>"
    by (simp add: State_zero_def)
  show ?thesis
    by (intro conjI) (rule r e valid_string_yes n l)+
qed

theorem C7_counterexample:
  "ReadFile (example_world [] (Response 200 [])
       (Some ''{\"alert_triggered\": true, \"alert_triggered\": 1}'')) stateFile =
     Some ''{\"alert_triggered\": true, \"alert_triggered\": 1}'' \<and>
   fst (Unmarshal_State ''{\"alert_triggered\": true, \"alert_triggered\": 1}'' State_zero) =
     Some UnmarshalTypeError \<and>
   loadState (example_world [] (Response 200 [])
       (Some ''{\"alert_triggered\": true, \"alert_triggered\": 1}'')) = \<lparr>AlertTriggered = True\<rparr> \<and>
   loadState (example_world [] (Response 200 [])
       (Some ''{\"alert_triggered\": true, \"alert_triggered\": 1}'')) \<noteq> State_zero"
proof -
  let ?d = "''{\"alert_triggered\": true, \"alert_triggered\": 1}''"
  let ?w = "example_world [] (Response 200 []) (Some ?d)"
  have r: "ReadFile ?w stateFile = Some ?d"
    by (rule example_read)
  have u: "Unmarshal_State ?d State_zero = (Some UnmarshalTypeError, \<lparr>AlertTriggered = True\<rparr>)"
    by (simp add: Unmarshal_State_def valid_duplicate_key decode_State_def match_field_def
        saveError_def)
  have e: "fst (Unmarshal_State ?d State_zero) = Some UnmarshalTypeError"
    by (simp add: u)
  have l: "loadState ?w = \<lparr>AlertTriggered = True\<rparr>"
    by (simp add: example_load u)
  have ne: "loadState ?w \<noteq> State_zero"
    by (simp add: l State_zero_def)
  show ?thesis
    by (intro conjI) (rule r e l ne)+
qed

text \<open>
  Claim C8. For every \<^verbatim>\<open>State\<close> and every world in which the state file can be
  written and read, \<^verbatim>\<open>loadState\<close> after \<^verbatim>\<open>saveState\<close> returns the state that was
  saved.
\<close>

theorem C8_save_then_load:
  assumes "writable w" and "readable w"
  shows "loadState (saveState s w) = s"
  using assms
  by (simp add: loadState_def saveState_def WriteFile_def ReadFile_def unmarshal_marshal)

theorem C8_witness:
  "writable (example_world [] (Response 200 []) None) \<and>
   readable (example_world [] (Response 200 []) None) \<and>
   files (saveState \<lparr>AlertTriggered = True\<rparr> (example_world [] (Response 200 []) None)) stateFile =
     Some (''{'' @ [newline] @ ''  \"alert_triggered\": true'' @ [newline] @ ''}'') \<and>
   loadState (saveState \<lparr>AlertTriggered = True\<rparr> (example_world [] (Response 200 []) None)) =
     \<lparr>AlertTriggered = True\<rparr>"
proof -
  let ?w = "example_world [] (Response 200 []) None"
  have h1: "writable ?w" and h2: "readable ?w"
    by (simp_all add: example_world_def)
  have f: "files (saveState \<lparr>AlertTriggered = True\<rparr> ?w) stateFile =
     Some (''{'' @ [newline] @ ''  \"alert_triggered\": true'' @ [newline] @ ''}'')"
    by (simp add: saveState_def WriteFile_def example_world_def MarshalIndent_State_def dquote_def)
  show ?thesis
    by (intro conjI) (rule h1 h2 f C8_save_then_load [OF h1 h2])+
qed

text \<open>
  Claim C9. The guards of the two \<^verbatim>\<open>if\<close> statements exclude each other, whatever the
  flags they read, since a price that is at most 12700 is not above 12900. In every
  run the state file is written at most once, it is written exactly when the flag that
  the run ends with differs from the flag it loaded, and a run that does not write
  leaves the files as they were.
\<close>

theorem C9_at_most_one_transition:
  "\<not> (alert_condition price22K s \<and> reset_condition price22K s') \<and>
   trace (snd (run w)) = trace w @ run_events w \<and>
   length (state_writes (run_events w)) \<le> 1 \<and>
   (state_writes (run_events w) \<noteq> [] \<longleftrightarrow> AlertTriggered (fst (run w)) \<noteq> AlertTriggered (loadState w)) \<and>
   (state_writes (run_events w) = [] \<longrightarrow> files (snd (run w)) = files w)"
  using alert_reset_exclusive [of price22K s s'] run_writes [of w] by blast

theorem C9_witness:
  "\<not> (alert_condition (Finite False 7037294376875117 (- 39)) \<lparr>AlertTriggered = False\<rparr> \<and>
       reset_condition (Finite False 7037294376875117 (- 39)) \<lparr>AlertTriggered = True\<rparr>) \<and>
   length (state_writes (run_events
     (example_world ''{\"price\": 422000}'' (Response 200 []) (Some (MarshalIndent_State \<lparr>AlertTriggered = True\<rparr>))))) \<le> 1 \<and>
   state_writes (run_events
     (example_world ''{\"price\": 422000}'' (Response 200 []) (Some (MarshalIndent_State \<lparr>AlertTriggered = True\<rparr>)))) = [] \<and>
   files (snd (run
     (example_world ''{\"price\": 422000}'' (Response 200 []) (Some (MarshalIndent_State \<lparr>AlertTriggered = True\<rparr>)))))
     stateFile = Some (''{'' @ [newline] @ ''  \"alert_triggered\": true'' @ [newline] @ ''}'')"
proof -
  let ?w = "example_world ''{\"price\": 422000}'' (Response 200 []) (Some (MarshalIndent_State \<lparr>AlertTriggered = True\<rparr>))"
  note c = C9_at_most_one_transition [of "Finite False 7037294376875117 (- 39)"
      "\<lparr>AlertTriggered = False\<rparr>" "\<lparr>AlertTriggered = True\<rparr>" ?w]
  note ex = c [THEN conjunct1]
  note len = c [THEN conjunct2, THEN conjunct2, THEN conjunct1]
  note fl = c [THEN conjunct2, THEN conjunct2, THEN conjunct2, THEN conjunct2]
  have t: "trace ?w = []"
    by (simp add: example_world_def)
  have "run_events ?w =
      [EvGet goldapi_url [(''x-access-token'', ''key''), (''Content-Type'', ''application/json'')]]"
    unfolding run_events_def run_example_dead_zone t by simp
  then have sw: "state_writes (run_events ?w) = []"
    by (simp add: state_writes_def)
  from fl sw have "files (snd (run ?w)) = files ?w"
    by blast
  then have f: "files (snd (run ?w)) stateFile =
      Some (''{'' @ [newline] @ ''  \"alert_triggered\": true'' @ [newline] @ ''}'')"
    by (simp add: example_world_def MarshalIndent_State_def dquote_def)
  show ?thesis
    by (intro conjI) (rule ex len sw f)+
qed

text \<open>
  Claim C10, as amended. For every state file whose content is a JSON text in which no
  member of the top-level value has a key that selects the field, that is the key
  \<^verbatim>\<open>alert_triggered\<close> or a key that differs from it only in the case of letters,
  \<^verbatim>\<open>loadState\<close> returns the zero state; the object \<^verbatim>\<open>{}\<close> is such a text.

  Lacking the key \<^verbatim>\<open>alert_triggered\<close> itself is not enough, since \<^verbatim>\<open>encoding/json\<close> also
  accepts a key that matches the name of the field without regard to case: the text of
  \<open>C10_counterexample\<close> has the key in upper case only, and the state loaded is
  Triggered.
\<close>

theorem C10_load_default_without_member:
  assumes "ReadFile w stateFile = Some data"
    and "checkValid data = Some v"
    and "\<not> has_alert_member v"
  shows "loadState w = State_zero"
proof -
  from assms(3) have "\<not> stores_true v"
    using has_member_if_stores_true by blast
  from decode_State_not_true [OF this] assms(1,2) show ?thesis
    by (simp add: loadState_def Unmarshal_State_def)
qed

theorem C10_witness:
  "ReadFile (example_world [] (Response 200 []) (Some ''{}'')) stateFile = Some ''{}'' \<and>
   checkValid ''{}'' = Some (JObject []) \<and>
   \<not> has_alert_member (JObject []) \<and>
   loadState (example_world [] (Response 200 []) (Some ''{}'')) = \<lparr>AlertTriggered = False\<rparr>"
proof -
  let ?w = "example_world [] (Response 200 []) (Some ''{}'')"
  have r: "ReadFile ?w stateFile = Some ''{}''"
    by (rule example_read)
  have n: "\<not> has_alert_member (JObject [])"
    by (simp add: has_alert_member_def top_members_def)
  from C10_load_default_without_member [OF r valid_empty_object n]
  have l: "loadState ?w = \<lparr>AlertTriggered = False\<rparr>"
    by (simp add: State_zero_def)
  show ?thesis
    by (intro conjI) (rule r valid_empty_object n l)+
qed

theorem C10_counterexample:
  "ReadFile (example_world [] (Response 200 []) (Some ''{\"ALERT_TRIGGERED\": true}'')) stateFile =
     Some ''{\"ALERT_TRIGGERED\": true}'' \<and>
   checkValid ''{\"ALERT_TRIGGERED\": true}'' = Some (JObject [(''ALERT_TRIGGERED'', JBool True)]) \<and>
   ''alert_triggered'' \<notin> set (map fst (top_members (JObject [(''ALERT_TRIGGERED'', JBool True)]))) \<and>
   loadState (example_world [] (Response 200 []) (Some ''{\"ALERT_TRIGGERED\": true}'')) =
     \<lparr>AlertTriggered = True\<rparr>"
proof -
  let ?d = "''{\"ALERT_TRIGGERED\": true}''"
  let ?w = "example_world [] (Response 200 []) (Some ?d)"
  have r: "ReadFile ?w stateFile = Some ?d"
    by (rule example_read)
  have k: "''alert_triggered'' \<notin> set (map fst (top_members (JObject [(''ALERT_TRIGGERED'', JBool True)])))"
    by (simp add: top_members_def)
  have l: "loadState ?w = \<lparr>AlertTriggered = True\<rparr>"
    by (simp add: example_load Unmarshal_State_def valid_upper_case_key decode_State_def
        match_upper_case State_zero_def)
  show ?thesis
    by (intro conjI) (rule r valid_upper_case_key k l)+
qed

end
